theory Spec2Isabelle
  imports Complex_Main "HOL-Library.Char_ord" "HOL-Library.List_Lexorder" "HOL-Library.Multiset"
begin

section \<open>Python strings and integers\<close>

text \<open>
  Python \<open>str\<close> values are modelled as \<open>string\<close>: lists of characters of the type \<open>char\<close>,
  which has the 256 code points \<open>0x00\<close> to \<open>0xFF\<close> (Latin-1), so a text with a character
  above \<open>0xFF\<close> is outside the model.  Python \<open>int\<close> (unbounded) is \<open>int\<close>.  \<open>str(n)\<close> of
  an integer is its decimal representation, with a leading minus sign for a negative
  number.
\<close>

definition digit_char :: "nat \<Rightarrow> char" where
  "digit_char d = ''0123456789'' ! d"

function str_nat :: "nat \<Rightarrow> string" where
  "str_nat n = (if n < 10 then [digit_char n] else str_nat (n div 10) @ [digit_char (n mod 10)])"
  by pat_completeness auto
termination
  by (relation "measure id") auto

declare str_nat.simps [simp del]

definition str_int :: "int \<Rightarrow> string" where
  "str_int i = (if i < 0 then CHR ''-'' # str_nat (nat (- i)) else str_nat (nat i))"

text \<open>\<open>sep.join(parts)\<close>\<close>

fun join :: "string \<Rightarrow> string list \<Rightarrow> string" where
  "join sep [] = []"
| "join sep [x] = x"
| "join sep (x # y # ys) = x @ sep @ join sep (y # ys)"

section \<open>Errors and floats\<close>

text \<open>
  A raised exception is a value: \<open>Inl e\<close> is the exception \<open>e\<close>, \<open>Inr x\<close> a normal result.
\<close>
datatype error = ValueError | OverflowError | IndexError | ZeroDivisionError | ReError

definition bind_e :: "error + 'a \<Rightarrow> ('a \<Rightarrow> error + 'b) \<Rightarrow> error + 'b" where
  "bind_e m f = (case m of Inl e \<Rightarrow> Inl e | Inr x \<Rightarrow> f x)"

datatype pyfloat = Finite bool rat | Infty bool | NaN

definition pow2 :: "int \<Rightarrow> rat" where
  "pow2 e = (if 0 \<le> e then 2 ^ nat e else 1 / 2 ^ nat (- e))"

definition pow10 :: "int \<Rightarrow> rat" where
  "pow10 e = (if 0 \<le> e then 10 ^ nat e else 1 / 10 ^ nat (- e))"

function bitlen :: "int \<Rightarrow> int" where
  "bitlen n = (if n \<le> 0 then 0 else 1 + bitlen (n div 2))"
  by pat_completeness auto
termination
  by (relation "measure nat") auto

declare bitlen.simps [simp del]

definition floor_log2 :: "rat \<Rightarrow> int" where
  "floor_log2 q =
     (if 1 \<le> q then bitlen \<lfloor>q\<rfloor> - 1
      else let j = bitlen \<lfloor>1 / q\<rfloor> - 1
           in if 1 / q = pow2 j then - j else - (j + 1))"

definition round_half_even :: "rat \<Rightarrow> int" where
  "round_half_even q =
     (let f = \<lfloor>q\<rfloor>; r = q - of_int f
      in if r < 1 / 2 then f
         else if 1 / 2 < r then f + 1
         else if even f then f else f + 1)"

definition dbl_round :: "rat \<Rightarrow> rat option" where
  "dbl_round q =
     (if q = 0 then Some 0
      else let e = floor_log2 q;
               sh = max (e - 52) (- 1074);
               m = round_half_even (q / pow2 sh);
               v = of_int m * pow2 sh
           in if pow2 1024 \<le> v then None else Some v)"

definition float_of_int :: "int \<Rightarrow> error + pyfloat" where
  "float_of_int i =
     (case dbl_round (of_int (abs i)) of
        None \<Rightarrow> Inl OverflowError
      | Some v \<Rightarrow> Inr (Finite (i < 0) v))"

definition py_round :: "pyfloat \<Rightarrow> error + int" where
  "py_round x =
     (case x of
        NaN \<Rightarrow> Inl ValueError
      | Infty s \<Rightarrow> Inl OverflowError
      | Finite s q \<Rightarrow> Inr (if s then - round_half_even q else round_half_even q))"

definition py_round2 :: "pyfloat \<Rightarrow> error + pyfloat" where
  "py_round2 x =
     (case x of
        NaN \<Rightarrow> Inr NaN
      | Infty s \<Rightarrow> Inr (Infty s)
      | Finite s q \<Rightarrow>
          (case dbl_round (of_int (round_half_even (q * 100)) / 100) of
             None \<Rightarrow> Inl OverflowError
           | Some v \<Rightarrow> Inr (Finite s v)))"


definition py_truediv :: "int \<Rightarrow> int \<Rightarrow> error + pyfloat" where
  "py_truediv a b =
     (if b = 0 then Inl ZeroDivisionError
      else case dbl_round (of_int (abs a) / of_int (abs b)) of
             None \<Rightarrow> Inl OverflowError
           | Some v \<Rightarrow> Inr (Finite ((a < 0) \<noteq> (b < 0)) v))"

definition float_sign :: "pyfloat \<Rightarrow> bool" where
  "float_sign x = (case x of Finite s q \<Rightarrow> s | Infty s \<Rightarrow> s | NaN \<Rightarrow> False)"

definition py_mul :: "pyfloat \<Rightarrow> pyfloat \<Rightarrow> pyfloat" where
  "py_mul x y =
     (case (x, y) of
        (NaN, _) \<Rightarrow> NaN
      | (_, NaN) \<Rightarrow> NaN
      | (Finite s q, Finite t r) \<Rightarrow>
          (case dbl_round (q * r) of None \<Rightarrow> Infty (s \<noteq> t) | Some v \<Rightarrow> Finite (s \<noteq> t) v)
      | (Finite s q, Infty t) \<Rightarrow> (if q = 0 then NaN else Infty (s \<noteq> t))
      | (Infty s, Finite t r) \<Rightarrow> (if r = 0 then NaN else Infty (s \<noteq> t))
      | (Infty s, Infty t) \<Rightarrow> Infty (s \<noteq> t))"

definition py_ge :: "pyfloat \<Rightarrow> int \<Rightarrow> bool" where
  "py_ge x k =
     (case x of
        NaN \<Rightarrow> False
      | Infty s \<Rightarrow> \<not> s
      | Finite s q \<Rightarrow> of_int k \<le> (if s then - q else q))"

subsection \<open>Text\<close>

text \<open>
  \<open>str.isspace\<close> on one character, which is the class that \<open>str.strip()\<close> removes: below
  \<open>0x100\<close> these are the characters \<open>0x09\<close> to \<open>0x0D\<close>, \<open>0x1C\<close> to \<open>0x1F\<close>, the space,
  \<open>0x85\<close> (next line) and \<open>0xA0\<close> (no-break space).
\<close>

definition is_space :: "char \<Rightarrow> bool" where
  "is_space c \<longleftrightarrow>
     c \<in> set [CHR 0x09, CHR 0x0A, CHR 0x0B, CHR 0x0C, CHR 0x0D,
               CHR 0x1C, CHR 0x1D, CHR 0x1E, CHR 0x1F, CHR 0x20, CHR 0x85, CHR 0xA0]"

definition strip :: "string \<Rightarrow> string" where
  "strip s = rev (dropWhile is_space (rev (dropWhile is_space s)))"

definition is_digit :: "char \<Rightarrow> bool" where
  "is_digit c \<longleftrightarrow> c \<in> set ''0123456789''"

definition is_upper :: "char \<Rightarrow> bool" where
  "is_upper c \<longleftrightarrow> c \<in> set ''ABCDEFGHIJKLMNOPQRSTUVWXYZ''"

definition is_lower :: "char \<Rightarrow> bool" where
  "is_lower c \<longleftrightarrow> c \<in> set ''abcdefghijklmnopqrstuvwxyz''"

text \<open>
  \<open>str.lower\<close>: below \<open>0x100\<close> the characters with a different lower-case form are the
  letters \<open>A\<close> to \<open>Z\<close> and the letters \<open>0xC0\<close> to \<open>0xDE\<close> without \<open>0xD7\<close> (the
  multiplication sign); the lower-case form is \<open>0x20\<close> higher.
\<close>

definition upper_letters :: string where
  "upper_letters =
     ''ABCDEFGHIJKLMNOPQRSTUVWXYZ'' @
        [CHR 0xC0, CHR 0xC1, CHR 0xC2, CHR 0xC3, CHR 0xC4, CHR 0xC5, CHR 0xC6, CHR 0xC7,
         CHR 0xC8, CHR 0xC9, CHR 0xCA, CHR 0xCB, CHR 0xCC, CHR 0xCD, CHR 0xCE, CHR 0xCF,
         CHR 0xD0, CHR 0xD1, CHR 0xD2, CHR 0xD3, CHR 0xD4, CHR 0xD5, CHR 0xD6, CHR 0xD8,
         CHR 0xD9, CHR 0xDA, CHR 0xDB, CHR 0xDC, CHR 0xDD, CHR 0xDE]"

definition lower_letters :: string where
  "lower_letters =
     ''abcdefghijklmnopqrstuvwxyz'' @
        [CHR 0xE0, CHR 0xE1, CHR 0xE2, CHR 0xE3, CHR 0xE4, CHR 0xE5, CHR 0xE6, CHR 0xE7,
         CHR 0xE8, CHR 0xE9, CHR 0xEA, CHR 0xEB, CHR 0xEC, CHR 0xED, CHR 0xEE, CHR 0xEF,
         CHR 0xF0, CHR 0xF1, CHR 0xF2, CHR 0xF3, CHR 0xF4, CHR 0xF5, CHR 0xF6, CHR 0xF8,
         CHR 0xF9, CHR 0xFA, CHR 0xFB, CHR 0xFC, CHR 0xFD, CHR 0xFE]"

definition lower_char :: "char \<Rightarrow> char" where
  "lower_char c =
     (case map_of (zip upper_letters lower_letters) c of
        Some d \<Rightarrow> d
      | None \<Rightarrow> c)"

definition lower :: "string \<Rightarrow> string" where
  "lower s = map lower_char s"

definition digit_val :: "char \<Rightarrow> nat" where
  "digit_val c = of_char c - 48"

definition nat_of_digits :: "string \<Rightarrow> nat" where
  "nat_of_digits ds = foldl (\<lambda>a c. 10 * a + digit_val c) 0 ds"

fun strip_underscores :: "char \<Rightarrow> string \<Rightarrow> string option" where
  "strip_underscores prev [] = (if prev = CHR ''_'' then None else Some [])"
| "strip_underscores prev (c # cs) =
     (if c = CHR ''_''
      then (if is_digit prev then strip_underscores c cs else None)
      else if prev = CHR ''_'' \<and> \<not> is_digit c then None
      else map_option ((#) c) (strip_underscores c cs))"

definition split_sign :: "string \<Rightarrow> bool \<times> string" where
  "split_sign s =
     (case s of
        [] \<Rightarrow> (False, [])
      | c # cs \<Rightarrow> if c = CHR ''-'' then (True, cs) else if c = CHR ''+'' then (False, cs) else (False, s))"

definition parse_exponent :: "string \<Rightarrow> (int \<times> string)" where
  "parse_exponent s =
     (case s of
        [] \<Rightarrow> (0, s)
      | c # cs \<Rightarrow>
          if c = CHR ''e'' \<or> c = CHR ''E''
          then let (neg, r) = split_sign cs;
                   ds = takeWhile is_digit r
               in if ds = [] then (0, s)
                  else ((if neg then - int (nat_of_digits ds) else int (nat_of_digits ds)),
                        dropWhile is_digit r)
          else (0, s))"

definition parse_decimal :: "string \<Rightarrow> rat option" where
  "parse_decimal s =
     (let ip = takeWhile is_digit s;
          r1 = dropWhile is_digit s;
          (fp, r2) = (case r1 of
                        [] \<Rightarrow> ([], r1)
                      | c # cs \<Rightarrow> if c = CHR ''.'' then (takeWhile is_digit cs, dropWhile is_digit cs)
                                  else ([], r1))
      in if ip @ fp = [] then None
         else let (ex, r3) = parse_exponent r2
              in if r3 \<noteq> [] then None
                 else Some (of_nat (nat_of_digits (ip @ fp)) * pow10 (ex - int (length fp))))"

text \<open>
  \<open>float(text)\<close> of a string, \<open>None\<close> for \<open>ValueError\<close>.  The interpreter works in four
  steps.  A string that is not pure ASCII is first rewritten: a character below \<open>0x7F\<close> is
  kept, any other white space character (\<open>0x85\<close>, \<open>0xA0\<close>) becomes a space, and the first
  character that is neither ends the text with a question mark, which no number contains.
  Then underscores are removed, each of which must stand between two digits.  Then the
  white space of the C locale (\<open>0x09\<close> to \<open>0x0D\<close> and the space, but not \<open>0x1C\<close> to
  \<open>0x1F\<close>) is removed at both ends.  What is left must be a decimal number, an infinity or
  a nan.
\<close>

fun space_to_ascii :: "string \<Rightarrow> string" where
  "space_to_ascii [] = []"
| "space_to_ascii (c # cs) =
     (if (of_char c :: nat) < 127 then c # space_to_ascii cs
      else if is_space c then CHR 0x20 # space_to_ascii cs
      else ''?'')"

definition is_c_space :: "char \<Rightarrow> bool" where
  "is_c_space c \<longleftrightarrow> c \<in> set [CHR 0x09, CHR 0x0A, CHR 0x0B, CHR 0x0C, CHR 0x0D, CHR 0x20]"

definition c_strip :: "string \<Rightarrow> string" where
  "c_strip s = rev (dropWhile is_c_space (rev (dropWhile is_c_space s)))"

definition float_of_str :: "string \<Rightarrow> pyfloat option" where
  "float_of_str text =
     (let a = (if list_all (\<lambda>c. (of_char c :: nat) < 128) text then text else space_to_ascii text)
      in case (if CHR ''_'' \<in> set a then strip_underscores (CHR 0x00) a else Some a) of
           None \<Rightarrow> None
         | Some u \<Rightarrow>
             let s = c_strip u
             in if s = [] then None
                else
                  let (neg, body) = split_sign s
                  in if lower body = ''inf'' \<or> lower body = ''infinity'' then Some (Infty neg)
                     else if lower body = ''nan'' then Some NaN
                     else case parse_decimal body of
                            None \<Rightarrow> None
                          | Some q \<Rightarrow>
                              (case dbl_round q of None \<Rightarrow> Some (Infty neg) | Some v \<Rightarrow> Some (Finite neg v)))"

datatype cell = CNone | CBool bool | CInt int | CFloat pyfloat | CStr string | COther string

definition parse_text :: "string \<Rightarrow> pyfloat" where
  "parse_text s =
     (let text = filter (\<lambda>c. c \<noteq> CHR '','') (strip s)
      in if text = [] \<or> text = ''-'' then Finite False 0
         else case float_of_str text of Some x \<Rightarrow> x | None \<Rightarrow> Finite False 0)"

fun parse_number :: "cell \<Rightarrow> error + pyfloat" where
  "parse_number CNone = Inr (Finite False 0)"
| "parse_number (CBool b) = float_of_int (if b then 1 else 0)"
| "parse_number (CInt i) = float_of_int i"
| "parse_number (CFloat x) = Inr x"
| "parse_number (CStr s) = Inr (parse_text s)"
| "parse_number (COther s) = Inr (parse_text s)"

definition to_int :: "cell \<Rightarrow> error + int" where
  "to_int v = bind_e (parse_number v) py_round"

definition to_percent :: "cell \<Rightarrow> error + pyfloat" where
  "to_percent v = bind_e (parse_number v) py_round2"

section \<open>Number and date formatting\<close>

subsection \<open>\<open>format_indian_number\<close>\<close>

text \<open>
  The loop \<open>while len(head) > 2: parts.append(head[-2:]); head = head[:-2]\<close>, as a
  function of the two variables it updates.
\<close>

function indian_loop :: "string \<Rightarrow> string list \<Rightarrow> string \<times> string list" where
  "indian_loop head parts =
     (if length head > 2
      then indian_loop (take (length head - 2) head) (parts @ [drop (length head - 2) head])
      else (head, parts))"
  by pat_completeness auto
termination
  by (relation "measure (\<lambda>(head, parts). length head)") auto

declare indian_loop.simps [simp del]

text \<open>
  \<open>format_indian_number\<close> on an integer argument: \<open>round\<close> of a Python \<open>int\<close> is that
  \<open>int\<close>, so \<open>n = int(round(value))\<close> is \<open>value\<close>.
\<close>

definition format_indian_number :: "int \<Rightarrow> string" where
  "format_indian_number n =
     (let sign = (if n < 0 then ''-'' else '''');
          s = str_int (abs n)
      in if length s \<le> 3 then sign @ s
         else
           let tail = drop (length s - 3) s;
               head = take (length s - 3) s;
               (head', parts) = indian_loop head [];
               parts' = (if head' \<noteq> [] then parts @ [head'] else parts)
           in sign @ join '','' (rev parts') @ '','' @ tail)"

text \<open>
  The grouping in the words of the specification: the last three digits are one group,
  the digits before them are grouped in pairs from the right.
\<close>

function pairs_from_right :: "string \<Rightarrow> string list" where
  "pairs_from_right s =
     (if length s \<le> 2 then [s]
      else pairs_from_right (take (length s - 2) s) @ [drop (length s - 2) s])"
  by pat_completeness auto
termination
  by (relation "measure length") auto

declare pairs_from_right.simps [simp del]

definition indian_groups :: "string \<Rightarrow> string list" where
  "indian_groups s =
     (if length s \<le> 3 then [s]
      else pairs_from_right (take (length s - 3) s) @ [drop (length s - 3) s])"

subsection \<open>\<open>ordinal\<close>\<close>

definition ordinal_suffixes :: "int \<rightharpoonup> string" where
  "ordinal_suffixes = [1 \<mapsto> ''st'', 2 \<mapsto> ''nd'', 3 \<mapsto> ''rd'']"

definition ordinal :: "int \<Rightarrow> string" where
  "ordinal n =
     (let suffix =
            (if 10 \<le> n mod 100 \<and> n mod 100 \<le> 20 then ''th''
             else (case ordinal_suffixes (n mod 10) of Some s \<Rightarrow> s | None \<Rightarrow> ''th''))
      in str_int n @ suffix)"

section \<open>Records of the extractor\<close>

record row_data =
  name :: string
  uploaded_villages :: int
  uploaded_plots :: int
  daily_target :: int
  surveyed_today :: int
  total_surveyed :: int
  survey_percent :: pyfloat
  approved :: int
  approval_percent :: pyfloat
  total_surveyors :: int
  in_field :: int

definition CANONICAL_ORDER :: "string list" where
  "CANONICAL_ORDER =
     [''Raikot'', ''Khanna'', ''Ludhiana (East)'', ''Payal'', ''Jagraon'', ''Samrala'',
      ''Ludhiana (West)'']"

definition DISPLAY_NAME_MAP :: "string \<rightharpoonup> string" where
  "DISPLAY_NAME_MAP =
     map_of [(''raikot'', ''Raikot''), (''khanna'', ''Khanna''), (''payal'', ''Payal''),
             (''jagraon'', ''Jagraon''), (''samrala'', ''Samrala''),
             (''ludhianaeast'', ''Ludhiana (East)''), (''ludhianawest'', ''Ludhiana (West)'')]"

text \<open>\<open>re.sub(r"[^a-z0-9]", "", value.lower())\<close>\<close>

definition normalize_name :: "string \<Rightarrow> string" where
  "normalize_name v = filter (\<lambda>c. is_lower c \<or> is_digit c) (lower v)"

definition display_name :: "string \<Rightarrow> string" where
  "display_name raw_name =
     (case DISPLAY_NAME_MAP (normalize_name raw_name) of
        Some d \<Rightarrow> d
      | None \<Rightarrow> strip raw_name)"

subsection \<open>The row loop of \<open>read_excel_data\<close>\<close>

text \<open>
  The column dictionary returned by \<open>map_columns\<close> has all eleven required keys (it raises
  otherwise), so it is a record of column indices.
\<close>

record columns =
  c_name :: nat
  c_uploaded_villages :: nat
  c_uploaded_plots :: nat
  c_daily_target :: nat
  c_surveyed_today :: nat
  c_total_surveyed :: nat
  c_survey_percent :: nat
  c_approved :: nat
  c_approval_percent :: nat
  c_total_surveyors :: nat
  c_in_field :: nat

text \<open>\<open>row[i]\<close> on a tuple, for an index that is not negative.\<close>

definition index_cell :: "cell list \<Rightarrow> nat \<Rightarrow> error + cell" where
  "index_cell row i = (if i < length row then Inr (row ! i) else Inl IndexError)"

text \<open>
  \<open>str(value)\<close> of a cell.  The \<open>repr\<close> of a float (its shortest digit string that reads
  back as the same float) is not modelled; it is the parameter \<open>float_repr\<close>.
\<close>

definition py_str :: "(pyfloat \<Rightarrow> string) \<Rightarrow> cell \<Rightarrow> string" where
  "py_str float_repr v =
     (case v of
        CNone \<Rightarrow> ''None''
      | CBool b \<Rightarrow> (if b then ''True'' else ''False'')
      | CInt i \<Rightarrow> str_int i
      | CFloat x \<Rightarrow> float_repr x
      | CStr s \<Rightarrow> s
      | COther s \<Rightarrow> s)"

definition int_field :: "cell list \<Rightarrow> nat \<Rightarrow> error + int" where
  "int_field row i = bind_e (index_cell row i) to_int"

definition percent_field :: "cell list \<Rightarrow> nat \<Rightarrow> error + pyfloat" where
  "percent_field row i = bind_e (index_cell row i) to_percent"

text \<open>
  One pass of the body of the loop over the data rows: \<open>None\<close> when the row is skipped
  (\<open>continue\<close>), otherwise the key and the record built from the row.  The entries of the
  dictionary literal are evaluated in the order they are written.
\<close>

definition row_record ::
  "(pyfloat \<Rightarrow> string) \<Rightarrow> columns \<Rightarrow> cell list \<Rightarrow> error + (string \<times> row_data) option" where
  "row_record float_repr col row =
     (let name_cell = (if c_name col < length row then row ! c_name col else CNone)
      in if name_cell = CNone \<or> strip (py_str float_repr name_cell) = [] then Inr None
         else
           let raw_name = strip (py_str float_repr name_cell);
               key = normalize_name raw_name
           in bind_e (int_field row (c_uploaded_villages col)) (\<lambda>uv.
              bind_e (int_field row (c_uploaded_plots col)) (\<lambda>up.
              bind_e (int_field row (c_daily_target col)) (\<lambda>dt.
              bind_e (int_field row (c_surveyed_today col)) (\<lambda>st.
              bind_e (int_field row (c_total_surveyed col)) (\<lambda>ts.
              bind_e (percent_field row (c_survey_percent col)) (\<lambda>sp.
              bind_e (int_field row (c_approved col)) (\<lambda>ap.
              bind_e (percent_field row (c_approval_percent col)) (\<lambda>app.
              bind_e (int_field row (c_total_surveyors col)) (\<lambda>tsv.
              bind_e (int_field row (c_in_field col)) (\<lambda>infd.
                Inr (Some (key,
                  \<lparr>name = display_name raw_name, uploaded_villages = uv, uploaded_plots = up,
                   daily_target = dt, surveyed_today = st, total_surveyed = ts,
                   survey_percent = sp, approved = ap, approval_percent = app,
                   total_surveyors = tsv, in_field = infd\<rparr>)))))))))))))"

text \<open>
  The loop, as a function of the two variables it updates: the list \<open>subdivisions\<close> and the
  optional \<open>totals\<close>.
\<close>

fun collect_rows ::
  "(pyfloat \<Rightarrow> string) \<Rightarrow> columns \<Rightarrow> cell list list \<Rightarrow> row_data list \<Rightarrow> row_data option
   \<Rightarrow> error + (row_data list \<times> row_data option)" where
  "collect_rows float_repr col [] subdivisions totals = Inr (subdivisions, totals)"
| "collect_rows float_repr col (row # rows) subdivisions totals =
     (case row_record float_repr col row of
        Inl e \<Rightarrow> Inl e
      | Inr None \<Rightarrow> collect_rows float_repr col rows subdivisions totals
      | Inr (Some (key, rd)) \<Rightarrow>
          if key = ''total''
          then collect_rows float_repr col rows subdivisions (Some rd)
          else collect_rows float_repr col rows (subdivisions @ [rd]) totals)"

text \<open>
  The records of the rows that the loop appends to \<open>subdivisions\<close> (rows that are neither
  skipped nor totals rows), in row order.
\<close>

definition subdivision_rows ::
  "(pyfloat \<Rightarrow> string) \<Rightarrow> columns \<Rightarrow> cell list list \<Rightarrow> row_data list" where
  "subdivision_rows float_repr col rows =
     concat (map (\<lambda>row. case row_record float_repr col row of
                           Inr (Some (key, rd)) \<Rightarrow> (if key = ''total'' then [] else [rd])
                         | _ \<Rightarrow> []) rows)"


subsection \<open>Canonical ordering\<close>

text \<open>
  \<open>by_name = {row["name"]: row for row in subdivisions}\<close>: a later row replaces an earlier
  one with the same name.
\<close>

definition by_name :: "row_data list \<Rightarrow> (string \<rightharpoonup> row_data)" where
  "by_name subdivisions = foldl (\<lambda>m row. m(name row \<mapsto> row)) Map.empty subdivisions"

definition ordered :: "row_data list \<Rightarrow> row_data list" where
  "ordered subdivisions =
     concat (map (\<lambda>n. case by_name subdivisions n of Some row \<Rightarrow> [row] | None \<Rightarrow> [])
               CANONICAL_ORDER)"

text \<open>
  \<open>list.sort\<close> is stable and compares the keys, here strings, by code point;
  \<open>sort_key\<close> is the stable insertion sort and the order on \<open>string\<close> is the
  lexicographic order on character codes.
\<close>

definition extras :: "row_data list \<Rightarrow> row_data list" where
  "extras subdivisions =
     sort_key name (filter (\<lambda>row. name row \<notin> set CANONICAL_ORDER) subdivisions)"

definition order_subdivisions :: "row_data list \<Rightarrow> row_data list" where
  "order_subdivisions subdivisions = ordered subdivisions @ extras subdivisions"

subsection \<open>Totals\<close>

definition percent_of :: "int \<Rightarrow> int \<Rightarrow> error + pyfloat" where
  "percent_of a b =
     (if b \<noteq> 0
      then bind_e (py_truediv a b) (\<lambda>q. py_round2 (py_mul q (Finite False 100)))
      else Inr (Finite False 0))"

definition computed_totals :: "row_data list \<Rightarrow> error + row_data" where
  "computed_totals subdivisions =
     (let uv = sum_list (map uploaded_villages subdivisions);
          up = sum_list (map uploaded_plots subdivisions);
          dt = sum_list (map daily_target subdivisions);
          st = sum_list (map surveyed_today subdivisions);
          ts = sum_list (map total_surveyed subdivisions);
          ap = sum_list (map approved subdivisions);
          tsv = sum_list (map total_surveyors subdivisions);
          infd = sum_list (map in_field subdivisions)
      in bind_e (percent_of ts up) (\<lambda>sp.
         bind_e (percent_of ap ts) (\<lambda>app.
           Inr \<lparr>name = ''Total'', uploaded_villages = uv, uploaded_plots = up,
                daily_target = dt, surveyed_today = st, total_surveyed = ts,
                survey_percent = sp, approved = ap, approval_percent = app,
                total_surveyors = tsv, in_field = infd\<rparr>)))"

text \<open>
  \<open>read_excel_data\<close> from the row loop on.  The header row index and the column
  dictionary are the results of \<open>detect_header_row\<close> and \<open>map_columns\<close>, which are not
  modelled, and the report date is left out; \<open>rows\<close> are all rows of the sheet.
\<close>

definition read_excel_data ::
  "(pyfloat \<Rightarrow> string) \<Rightarrow> columns \<Rightarrow> nat \<Rightarrow> cell list list \<Rightarrow> error + (row_data list \<times> row_data)" where
  "read_excel_data float_repr col header_idx rows =
     bind_e (collect_rows float_repr col (drop (header_idx + 1) rows) [] None)
       (\<lambda>(subdivisions, totals).
          if subdivisions = [] then Inl ValueError
          else let subdivisions' = order_subdivisions subdivisions
               in case totals of
                    Some t \<Rightarrow> Inr (subdivisions', t)
                  | None \<Rightarrow> bind_e (computed_totals subdivisions') (\<lambda>t. Inr (subdivisions', t)))"

section \<open>The renderer\<close>

definition nl :: string where
  "nl = [CHR 0x0A]"

definition sq :: string where
  "sq = [CHR 0x27]"

subsection \<open>Dates\<close>

text \<open>
  A \<open>datetime.date\<close>: a valid calendar date, so \<open>month\<close> is from 1 to 12.  \<open>strftime\<close> is
  modelled for the C locale, which the script never changes, and for years of four digits.
\<close>

record date =
  year :: int
  month :: int
  day :: int

definition MONTH_NAMES :: "string list" where
  "MONTH_NAMES =
     [''January'', ''February'', ''March'', ''April'', ''May'', ''June'', ''July'', ''August'',
      ''September'', ''October'', ''November'', ''December'']"

definition MONTH_ABBR :: "string list" where
  "MONTH_ABBR =
     [''Jan'', ''Feb'', ''Mar'', ''Apr'', ''May'', ''Jun'', ''Jul'', ''Aug'', ''Sep'', ''Oct'',
      ''Nov'', ''Dec'']"

definition format_as_of_date :: "date \<Rightarrow> string" where
  "format_as_of_date d =
     ordinal (day d) @ '' '' @ MONTH_NAMES ! nat (month d - 1) @ '' '' @ str_int (year d)"

definition format_surveyed_header_date :: "date \<Rightarrow> string" where
  "format_surveyed_header_date d =
     str_int (day d) @ ''-'' @ str_int (month d) @ ''-'' @
     (let s = str_int (year d) in drop (length s - 2) s)"

definition format_daily_chart_label :: "date \<Rightarrow> string" where
  "format_daily_chart_label d = ordinal (day d) @ '' '' @ MONTH_ABBR ! nat (month d - 1)"

subsection \<open>Percentages\<close>

text \<open>
  The format \<open>.2f\<close> of a float: the exact value rounded half to even to two decimals.
\<close>

definition two_digits :: "nat \<Rightarrow> string" where
  "two_digits n = [digit_char (n div 10), digit_char (n mod 10)]"

definition fmt2 :: "pyfloat \<Rightarrow> string" where
  "fmt2 x =
     (case x of
        NaN \<Rightarrow> ''nan''
      | Infty s \<Rightarrow> (if s then ''-inf'' else ''inf'')
      | Finite s q \<Rightarrow>
          (let r = nat (round_half_even (q * 100))
           in (if s then ''-'' else []) @ str_nat (r div 100) @ ''.'' @ two_digits (r mod 100)))"

definition survey_bar_class :: "pyfloat \<Rightarrow> string" where
  "survey_bar_class percent =
     (if py_ge percent 10 then ''high'' else if py_ge percent 7 then ''medium'' else ''low'')"

definition approval_bar_class :: "pyfloat \<Rightarrow> string" where
  "approval_bar_class percent =
     (if py_ge percent 15 then ''high'' else if py_ge percent 10 then ''medium'' else ''low'')"

definition survey_badge_class :: "pyfloat \<Rightarrow> string" where
  "survey_badge_class percent =
     (if py_ge percent 10 then ''success'' else if py_ge percent 7 then ''warning''
      else ''danger'')"

definition approval_badge_class :: "pyfloat \<Rightarrow> string" where
  "approval_badge_class percent =
     (if py_ge percent 20 then ''success'' else if py_ge percent 10 then ''warning''
      else ''danger'')"

subsection \<open>Fragments\<close>

text \<open>
  The f-string templates of \<open>build_stats_html\<close>, \<open>build_subdivision_cards_html\<close> and
  \<open>build_table_body_html\<close>, piece by piece; \<open>nl\<close> is a line break.
\<close>

definition build_stats_html :: "row_data \<Rightarrow> string" where
  \<open>build_stats_html totals =
     concat
      [''    <div class="stats-grid">'', nl, ''        <div class="stat-card">'', nl,
       ''            <div class="stat-label">Total Uploaded Plots</div>'', nl,
       ''            <div class="stat-value">'', format_indian_number (uploaded_plots totals),
       ''</div>'', nl,
       ''            <div class="stat-subtext">Across all sub-divisions</div>'', nl,
       ''        </div>'', nl, ''        <div class="stat-card success">'', nl,
       ''            <div class="stat-label">Total Surveyed</div>'', nl,
       ''            <div class="stat-value">'', format_indian_number (total_surveyed totals),
       ''</div>'', nl, ''            <div class="stat-subtext">'',
       fmt2 (survey_percent totals), ''% completion</div>'', nl, ''        </div>'', nl,
       ''        <div class="stat-card warning">'', nl,
       ''            <div class="stat-label">Approved by Supervisor</div>'', nl,
       ''            <div class="stat-value">'', format_indian_number (approved totals),
       ''</div>'', nl, ''            <div class="stat-subtext">'',
       fmt2 (approval_percent totals), ''% of surveyed</div>'', nl, ''        </div>'', nl,
       ''        <div class="stat-card danger">'', nl,
       ''            <div class="stat-label">Daily Target Required</div>'', nl,
       ''            <div class="stat-value">'', format_indian_number (daily_target totals),
       ''</div>'', nl,
       ''            <div class="stat-subtext">To complete by 31st March</div>'', nl,
       ''        </div>'', nl, ''    </div>'']\<close>

definition card_html :: "row_data \<Rightarrow> string" where
  \<open>card_html row =
     concat
      [''        <div class="subdivision-card">'', nl, ''            <h3>'', name row,
       ''</h3>'', nl, ''            <div class="progress-section">'', nl,
       ''                <div class="progress-label">'', nl,
       ''                    <span>Survey Progress</span>'', nl,
       ''                    <span><strong>'', fmt2 (survey_percent row),
       ''%</strong></span>'', nl, ''                </div>'', nl,
       ''                <div class="progress-bar">'', nl,
       ''                    <div class="progress-fill '',
       survey_bar_class (survey_percent row), ''" style="width: '', fmt2 (survey_percent row),
       ''%;"></div>'', nl, ''                </div>'', nl, ''            </div>'', nl,
       ''            <div class="progress-section">'', nl,
       ''                <div class="progress-label">'', nl,
       ''                    <span>Approval Rate</span>'', nl,
       ''                    <span><strong>'', fmt2 (approval_percent row),
       ''%</strong></span>'', nl, ''                </div>'', nl,
       ''                <div class="progress-bar">'', nl,
       ''                    <div class="progress-fill '',
       approval_bar_class (approval_percent row), ''" style="width: '',
       fmt2 (approval_percent row), ''%;"></div>'', nl, ''                </div>'', nl,
       ''            </div>'', nl, ''            <div class="detail-grid">'', nl,
       ''                <div class="detail-item">'', nl,
       ''                    <span class="detail-label">Total Plots</span>'', nl,
       ''                    <span class="detail-value">'',
       format_indian_number (uploaded_plots row), ''</span>'', nl, ''                </div>'',
       nl, ''                <div class="detail-item">'', nl,
       ''                    <span class="detail-label">Surveyed Plots</span>'', nl,
       ''                    <span class="detail-value">'',
       format_indian_number (total_surveyed row), ''</span>'', nl, ''                </div>'',
       nl, ''                <div class="detail-item">'', nl,
       ''                    <span class="detail-label">Approved</span>'', nl,
       ''                    <span class="detail-value">'',
       format_indian_number (approved row), ''</span>'', nl, ''                </div>'', nl,
       ''                <div class="detail-item">'', nl,
       ''                    <span class="detail-label">Surveyors</span>'', nl,
       ''                    <span class="detail-value">'', str_int (total_surveyors row),
       ''</span>'', nl, ''                </div>'', nl,
       ''                <div class="detail-item">'', nl,
       ''                    <span class="detail-label">In Field</span>'', nl,
       ''                    <span class="detail-value">'', str_int (in_field row),
       ''</span>'', nl, ''                </div>'', nl, ''            </div>'', nl,
       ''        </div>'']\<close>

definition table_row_html :: "row_data \<Rightarrow> string" where
  \<open>table_row_html row =
     concat
      [''                <tr>'', nl, ''                    <td><strong>'', name row,
       ''</strong></td>'', nl, ''                    <td>'', str_int (uploaded_villages row),
       ''</td>'', nl, ''                    <td>'', format_indian_number (uploaded_plots row),
       ''</td>'', nl, ''                    <td>'', format_indian_number (daily_target row),
       ''</td>'', nl, ''                    <td>'', format_indian_number (surveyed_today row),
       ''</td>'', nl, ''                    <td>'', format_indian_number (total_surveyed row),
       ''</td>'', nl, ''                    <td><span class="badge '',
       survey_badge_class (survey_percent row), ''">'', fmt2 (survey_percent row),
       ''%</span></td>'', nl, ''                    <td>'',
       format_indian_number (approved row), ''</td>'', nl,
       ''                    <td><span class="badge '',
       approval_badge_class (approval_percent row), ''">'', fmt2 (approval_percent row),
       ''%</span></td>'', nl, ''                    <td>'', str_int (total_surveyors row),
       ''</td>'', nl, ''                    <td>'', str_int (in_field row), ''</td>'', nl,
       ''                </tr>'']\<close>

definition total_row_html :: "row_data \<Rightarrow> string" where
  \<open>total_row_html totals =
     concat
      [''                <tr>'', nl, ''                    <td><strong>Total</strong></td>'',
       nl, ''                    <td><strong>'', str_int (uploaded_villages totals),
       ''</strong></td>'', nl, ''                    <td><strong>'',
       format_indian_number (uploaded_plots totals), ''</strong></td>'', nl,
       ''                    <td><strong>'', format_indian_number (daily_target totals),
       ''</strong></td>'', nl, ''                    <td><strong>'',
       format_indian_number (surveyed_today totals), ''</strong></td>'', nl,
       ''                    <td><strong>'', format_indian_number (total_surveyed totals),
       ''</strong></td>'', nl, ''                    <td><span class="badge '',
       survey_badge_class (survey_percent totals), ''">'', fmt2 (survey_percent totals),
       ''%</span></td>'', nl, ''                    <td><strong>'',
       format_indian_number (approved totals), ''</strong></td>'', nl,
       ''                    <td><span class="badge '',
       approval_badge_class (approval_percent totals), ''">'', fmt2 (approval_percent totals),
       ''%</span></td>'', nl, ''                    <td><strong>'',
       str_int (total_surveyors totals), ''</strong></td>'', nl,
       ''                    <td><strong>'', str_int (in_field totals), ''</strong></td>'', nl,
       ''                </tr>'']\<close>

definition build_subdivision_cards_html :: "row_data list \<Rightarrow> string" where
  \<open>build_subdivision_cards_html rows =
     join nl ([''    <div class="subdivision-grid">''] @ map card_html rows @ [''    </div>''])\<close>

definition build_table_body_html :: "row_data list \<Rightarrow> row_data \<Rightarrow> string" where
  \<open>build_table_body_html rows totals =
     join nl ([''            <tbody>''] @ map table_row_html rows @
              [total_row_html totals, ''            </tbody>''])\<close>

subsection \<open>Searching and splicing text\<close>

fun startswith :: "string \<Rightarrow> string \<Rightarrow> bool" where
  "startswith s [] = True"
| "startswith [] (p # ps) = False"
| "startswith (c # cs) (p # ps) = (c = p \<and> startswith cs ps)"

text \<open>\<open>text.find(sub)\<close>: the first index where \<open>sub\<close> occurs, \<open>None\<close> for \<open>-1\<close>.\<close>

fun find_str :: "string \<Rightarrow> string \<Rightarrow> nat option" where
  "find_str sub [] = (if sub = [] then Some 0 else None)"
| "find_str sub (c # cs) =
     (if startswith (c # cs) sub then Some 0 else map_option Suc (find_str sub cs))"

text \<open>\<open>text.find(sub, start)\<close> for \<open>start \<le> len(text)\<close>.\<close>

definition find_from :: "string \<Rightarrow> string \<Rightarrow> nat \<Rightarrow> nat option" where
  "find_from text sub start = map_option (\<lambda>i. start + i) (find_str sub (drop start text))"

definition replace_between :: "string \<Rightarrow> string \<Rightarrow> string \<Rightarrow> string \<Rightarrow> error + string" where
  "replace_between text start_marker end_marker replacement =
     (case find_str start_marker text of
        None \<Rightarrow> Inl ValueError
      | Some start_idx \<Rightarrow>
          (case find_from text end_marker start_idx of
             None \<Rightarrow> Inl ValueError
           | Some end_idx \<Rightarrow> Inr (take start_idx text @ replacement @ drop end_idx text)))"

subsection \<open>The regular expressions\<close>

text \<open>
  Every pattern of the script is a literal, a negated one-character class repeated greedily
  (\<open>+\<close> or \<open>*\<close>), and a literal: \<open>re_pre [^re_not]{re_min,} re_suf\<close>.
\<close>

record simple_re =
  re_pre :: string
  re_not :: char
  re_min :: nat
  re_suf :: string

text \<open>
  The class has taken \<open>k\<close> characters of \<open>rest\<close>; the matcher gives characters back one
  by one until the rest of the pattern matches or fewer than \<open>minc\<close> are left.
\<close>

fun backtrack :: "nat \<Rightarrow> nat \<Rightarrow> string \<Rightarrow> string \<Rightarrow> nat option" where
  "backtrack minc 0 rest suf = (if minc = 0 \<and> startswith rest suf then Some 0 else None)"
| "backtrack minc (Suc k) rest suf =
     (if Suc k < minc then None
      else if startswith (drop (Suc k) rest) suf then Some (Suc k)
      else backtrack minc k rest suf)"

text \<open>The length of the match of the pattern at the start of \<open>s\<close>, if there is one.\<close>

definition match_at :: "simple_re \<Rightarrow> string \<Rightarrow> nat option" where
  "match_at p s =
     (if startswith s (re_pre p)
      then let rest = drop (length (re_pre p)) s;
               n = length (takeWhile (\<lambda>c. c \<noteq> re_not p) rest)
           in map_option (\<lambda>k. length (re_pre p) + k + length (re_suf p))
                (backtrack (re_min p) n rest (re_suf p))
      else None)"

text \<open>\<open>pattern.search(text)\<close>: start and length of the leftmost match.\<close>

fun re_search :: "simple_re \<Rightarrow> string \<Rightarrow> (nat \<times> nat) option" where
  "re_search p [] = map_option (\<lambda>l. (0, l)) (match_at p [])"
| "re_search p (c # cs) =
     (case match_at p (c # cs) of
        Some l \<Rightarrow> Some (0, l)
      | None \<Rightarrow> map_option (\<lambda>(i, l). (Suc i, l)) (re_search p cs))"

text \<open>
  \<open>re.sub(pattern, repl, text, count=1)\<close>.  A replacement string without a backslash is
  taken literally.  One with a backslash is first parsed as a template (escapes and group
  references), which can raise \<open>re.error\<close>; that parser is the parameter \<open>tmpl\<close>, which
  gives the replacement as a function of the matched text.  The template is parsed whether
  or not the pattern matches.
\<close>

definition re_sub1 ::
  "(string \<Rightarrow> error + (string \<Rightarrow> string)) \<Rightarrow> simple_re \<Rightarrow> string \<Rightarrow> string \<Rightarrow> error + string" where
  "re_sub1 tmpl p repl text =
     bind_e (if CHR 0x5C \<in> set repl then tmpl repl else Inr (\<lambda>m. repl))
       (\<lambda>f. Inr (case re_search p text of
                  None \<Rightarrow> text
                | Some (i, l) \<Rightarrow> take i text @ f (take l (drop i text)) @ drop (i + l) text))"

definition as_of_re :: simple_re where
  "as_of_re = \<lparr>re_pre = ''<p>Ludhiana District | Data as of '', re_not = CHR ''<'', re_min = 1,
               re_suf = ''</p>''\<rparr>"

definition surveyed_th_re :: simple_re where
  "surveyed_th_re = \<lparr>re_pre = ''<th>Surveyed ('', re_not = CHR '')'', re_min = 1,
                     re_suf = '')</th>''\<rparr>"

definition chart_label_re :: simple_re where
  "chart_label_re = \<lparr>re_pre = ''label: '' @ sq @ ''Plots Surveyed ('', re_not = CHR 0x27,
                     re_min = 1, re_suf = '')'' @ sq\<rparr>"

text \<open>
  \<open>const NAME = \[[^\]]*];\<close>; the six names are letters only, so \<open>re.escape\<close> leaves them
  as they are.
\<close>

definition array_re :: "string \<Rightarrow> simple_re" where
  "array_re const_name = \<lparr>re_pre = ''const '' @ const_name @ '' = ['', re_not = CHR '']'',
                          re_min = 0, re_suf = ''];''\<rparr>"

definition replace_array_const ::
  "(string \<Rightarrow> error + (string \<Rightarrow> string)) \<Rightarrow> string \<Rightarrow> string \<Rightarrow> string \<Rightarrow> error + string" where
  "replace_array_const tmpl text const_name values_js =
     (if re_search (array_re const_name) text = None then Inl ValueError
      else re_sub1 tmpl (array_re const_name)
             (''const '' @ const_name @ '' = ['' @ values_js @ ''];'') text)"

subsection \<open>\<open>update_html\<close>\<close>

record data =
  report_date :: date
  subdivisions :: "row_data list"
  totals :: row_data

text \<open>
  The body of \<open>update_html\<close> between reading and writing the file: the new text of the
  document, or the exception.
\<close>

definition render ::
  "(string \<Rightarrow> error + (string \<Rightarrow> string)) \<Rightarrow> data \<Rightarrow> string \<Rightarrow> error + string" where
  \<open>render tmpl d html0 =
     (let as_of = format_as_of_date (report_date d);
          surveyed_header = format_surveyed_header_date (report_date d);
          daily_label = format_daily_chart_label (report_date d);
          rows = subdivisions d;
          stats_html = build_stats_html (totals d);
          cards_html = build_subdivision_cards_html rows;
          tbody_html = build_table_body_html rows (totals d)
      in bind_e (re_sub1 tmpl as_of_re (''<p>Ludhiana District | Data as of '' @ as_of @ ''</p>'') html0)
           (\<lambda>html1.
         bind_e (replace_between html1 ''    <div class="stats-grid">''
                   (nl @ nl @ ''    <h2 style="margin: 30px 0 20px 0; padding-left: 10px;">'')
                   stats_html) (\<lambda>html2.
         bind_e (replace_between html2 ''    <div class="subdivision-grid">''
                   (nl @ nl @ ''    <!-- Charts: survey, approval, surveyors, daily progress -->'')
                   cards_html) (\<lambda>html3.
         bind_e (re_sub1 tmpl surveyed_th_re (''<th>Surveyed ('' @ surveyed_header @ '')</th>'') html3)
           (\<lambda>html4.
         (case find_str ''            <tbody>'' html4 of
            None \<Rightarrow> Inl ValueError
          | Some tbody_start \<Rightarrow>
              (case find_from html4 ''            </tbody>'' tbody_start of
                 None \<Rightarrow> Inl ValueError
               | Some tbody_end \<Rightarrow>
                   (let html5 = take tbody_start html4 @ tbody_html @
                                drop (tbody_end + length ''            </tbody>'') html4
                    in bind_e (replace_array_const tmpl html5 ''subdivisions''
                                 (join '', '' (map (\<lambda>row. sq @ name row @ sq) rows))) (\<lambda>html6.
                       bind_e (replace_array_const tmpl html6 ''surveyPercentages''
                                 (join '', '' (map (\<lambda>row. fmt2 (survey_percent row)) rows))) (\<lambda>html7.
                       bind_e (replace_array_const tmpl html7 ''approvalPercentages''
                                 (join '', '' (map (\<lambda>row. fmt2 (approval_percent row)) rows))) (\<lambda>html8.
                       bind_e (replace_array_const tmpl html8 ''totalSurveyors''
                                 (join '', '' (map (\<lambda>row. str_int (total_surveyors row)) rows))) (\<lambda>html9.
                       bind_e (replace_array_const tmpl html9 ''inField''
                                 (join '', '' (map (\<lambda>row. str_int (in_field row)) rows))) (\<lambda>html10.
                       bind_e (replace_array_const tmpl html10 ''dailyProgress''
                                 (join '', '' (map (\<lambda>row. str_int (surveyed_today row)) rows))) (\<lambda>html11.
                       re_sub1 tmpl chart_label_re
                         (''label: '' @ sq @ ''Plots Surveyed ('' @ daily_label @ '')'' @ sq)
                         html11))))))))))))))\<close>

text \<open>
  The target file: its text and how many times it has been written.  \<open>update_html\<close> reads
  the file, renders, and writes the result as its last statement; an exception leaves
  before the write.
\<close>

record file_state =
  content :: string
  writes :: nat

definition update_html ::
  "(string \<Rightarrow> error + (string \<Rightarrow> string)) \<Rightarrow> data \<Rightarrow> file_state \<Rightarrow> error option \<times> file_state" where
  "update_html tmpl d fs =
     (case render tmpl d (content fs) of
        Inl e \<Rightarrow> (Some e, fs)
      | Inr html \<Rightarrow> (None, \<lparr>content = html, writes = writes fs + 1\<rparr>))"

subsection \<open>An example sheet\<close>

text \<open>
  A sheet with a header row and five data rows, two of them for Raikot and one with an
  empty name cell, and the records and totals the extractor computes from it.
\<close>

definition example_columns :: columns where
  "example_columns =
     \<lparr>c_name = 0, c_uploaded_villages = 1, c_uploaded_plots = 2, c_daily_target = 3,
      c_surveyed_today = 4, c_total_surveyed = 5, c_survey_percent = 6, c_approved = 7,
      c_approval_percent = 8, c_total_surveyors = 9, c_in_field = 10\<rparr>"

definition sheet_header :: "cell list" where
  "sheet_header =
     [CStr ''Sub District Name'', CStr ''v'', CStr ''p'', CStr ''d'', CStr ''s'', CStr ''t'', CStr ''sp'', CStr ''a'', CStr ''ap'', CStr ''ts'', CStr ''f'']"

definition sheet_row1 :: "cell list" where
  "sheet_row1 =
     [CStr ''raikot'', CInt 1, CInt 100, CInt 10, CInt 5, CInt 20, CStr ''20.0'', CInt 10, CStr ''50'', CInt 3, CInt 2]"

definition sheet_row2 :: "cell list" where
  "sheet_row2 =
     [CStr ''Zeta'', CInt 2, CInt 200, CInt 20, CInt 6, CInt 30, CInt 15, CInt 6, CInt 20, CInt 4, CInt 1]"

definition sheet_row3 :: "cell list" where
  "sheet_row3 =
     [CStr '' RAIKOT'', CInt 3, CInt 300, CInt 30, CInt 7, CInt 60, CInt 20, CInt 15, CInt 25, CInt 5, CInt 4]"

definition sheet_row4 :: "cell list" where
  "sheet_row4 =
     [CNone, CInt 9, CInt 9, CInt 9, CInt 9, CInt 9, CInt 9, CInt 9, CInt 9, CInt 9, CInt 9]"

definition sheet_row5 :: "cell list" where
  "sheet_row5 =
     [CStr ''Alpha'', CInt 5, CInt 400, CInt 50, CInt 9, CInt 10, CInt 10, CInt 5, CInt 50, CInt 7, CInt 6]"

definition example_sheet :: "cell list list" where
  "example_sheet = [sheet_header, sheet_row1, sheet_row2, sheet_row3, sheet_row4, sheet_row5]"

definition rec_raikot1 :: row_data where
  "rec_raikot1 = \<lparr>name = ''Raikot'', uploaded_villages = 1, uploaded_plots = 100,
     daily_target = 10, surveyed_today = 5, total_surveyed = 20,
     survey_percent = Finite False 20, approved = 10,
     approval_percent = Finite False 50, total_surveyors = 3, in_field = 2\<rparr>"

definition rec_zeta :: row_data where
  "rec_zeta = \<lparr>name = ''Zeta'', uploaded_villages = 2, uploaded_plots = 200,
     daily_target = 20, surveyed_today = 6, total_surveyed = 30,
     survey_percent = Finite False 15, approved = 6,
     approval_percent = Finite False 20, total_surveyors = 4, in_field = 1\<rparr>"

definition rec_raikot2 :: row_data where
  "rec_raikot2 = \<lparr>name = ''Raikot'', uploaded_villages = 3, uploaded_plots = 300,
     daily_target = 30, surveyed_today = 7, total_surveyed = 60,
     survey_percent = Finite False 20, approved = 15,
     approval_percent = Finite False 25, total_surveyors = 5, in_field = 4\<rparr>"

definition rec_alpha :: row_data where
  "rec_alpha = \<lparr>name = ''Alpha'', uploaded_villages = 5, uploaded_plots = 400,
     daily_target = 50, surveyed_today = 9, total_surveyed = 10,
     survey_percent = Finite False 10, approved = 5,
     approval_percent = Finite False 50, total_surveyors = 7, in_field = 6\<rparr>"

definition rec_total :: row_data where
  "rec_total = \<lparr>name = ''Total'', uploaded_villages = 10, uploaded_plots = 900,
     daily_target = 100, surveyed_today = 22, total_surveyed = 100,
     survey_percent = Finite False (781796747813847 / 70368744177664), approved = 26,
     approval_percent = Finite False 26, total_surveyors = 16, in_field = 11\<rparr>"

text \<open>
  The same data rows in the opposite order, so that the other row for Raikot is the later
  one, and the totals the extractor computes from them.
\<close>

definition permuted_sheet :: "cell list list" where
  "permuted_sheet = [sheet_header, sheet_row5, sheet_row4, sheet_row3, sheet_row2, sheet_row1]"

definition rec_total_permuted :: row_data where
  "rec_total_permuted = \<lparr>name = ''Total'', uploaded_villages = 8, uploaded_plots = 700,
     daily_target = 80, surveyed_today = 20, total_surveyed = 60,
     survey_percent = Finite False (1206120275205161 / 140737488355328), approved = 21,
     approval_percent = Finite False 35, total_surveyors = 14, in_field = 9\<rparr>"

text \<open>
  A sheet with two subdivisions that are not among the seven known ones, one of them
  written in lower case.
\<close>

definition sheet_row6 :: "cell list" where
  "sheet_row6 =
     [CStr ''alpha'', CInt 1, CInt 200, CInt 10, CInt 4, CInt 70, CInt 35, CInt 44, CInt 63, CInt 1, CInt 1]"

definition mixed_case_sheet :: "cell list list" where
  "mixed_case_sheet = [sheet_header, sheet_row6, sheet_row2]"

definition rec_alpha_lc :: row_data where
  "rec_alpha_lc = \<lparr>name = ''alpha'', uploaded_villages = 1, uploaded_plots = 200,
     daily_target = 10, surveyed_today = 4, total_surveyed = 70,
     survey_percent = Finite False 35, approved = 44,
     approval_percent = Finite False 63, total_surveyors = 1, in_field = 1\<rparr>"

definition rec_total_mixed :: row_data where
  "rec_total_mixed = \<lparr>name = ''Total'', uploaded_villages = 3, uploaded_plots = 400,
     daily_target = 30, surveyed_today = 10, total_surveyed = 100,
     survey_percent = Finite False 25, approved = 50,
     approval_percent = Finite False 50, total_surveyors = 5, in_field = 2\<rparr>"

text \<open>
  The order that the specification names for the records of other subdivisions:
  alphabetical, which takes a letter and its capital as the same letter.
\<close>

definition alphabetical_spec :: "string list \<Rightarrow> bool" where
  "alphabetical_spec names \<longleftrightarrow> sorted (map lower names)"

subsection \<open>An example document\<close>

text \<open>
  A small document that has every anchor of \<open>update_html\<close> except the as-of line
  \<open><p>Ludhiana District | Data as of ...</p>\<close>, a snapshot to render into it (the records
  and totals of the example sheet), and the document that the run writes.
\<close>

definition doc_label :: "string \<Rightarrow> string" where
  "doc_label d = ''label: '' @ sq @ ''Plots Surveyed ('' @ d @ '')'' @ sq @ nl"

definition doc_array :: "string \<Rightarrow> string \<Rightarrow> string" where
  "doc_array n v = ''const '' @ n @ '' = ['' @ v @ ''];'' @ nl"

definition doc_tbody :: string where
  "doc_tbody = ''            <tbody>'' @ nl @ ''            </tbody>''"

definition doc_th :: "string \<Rightarrow> string" where
  "doc_th d = ''<th>Surveyed ('' @ d @ '')</th>'' @ nl"

definition doc_charts :: string where
  "doc_charts =
     nl @ nl @ ''    <!-- Charts: survey, approval, surveyors, daily progress -->'' @ nl"

definition doc_heading :: string where
  \<open>doc_heading =
     nl @ nl @ ''    <h2 style="margin: 30px 0 20px 0; padding-left: 10px;">Sub</h2>'' @ nl\<close>

definition bare_doc :: string where
  \<open>bare_doc =
     doc_label ''1st Jan'' @ doc_array ''dailyProgress'' [] @ doc_array ''inField'' [] @
     doc_array ''totalSurveyors'' [] @ doc_array ''approvalPercentages'' [] @
     doc_array ''surveyPercentages'' ''1, 2'' @ doc_array ''subdivisions'' [] @
     doc_tbody @ nl @ doc_th ''1-1-24'' @
     ''    <div class="subdivision-grid">'' @ doc_charts @
     ''    <div class="stats-grid">'' @ doc_heading\<close>

definition example_data :: data where
  "example_data =
     \<lparr>report_date = \<lparr>year = 2024, month = 2, day = 5\<rparr>,
      subdivisions = [rec_raikot2, rec_alpha, rec_zeta], totals = rec_total\<rparr>"

text \<open>
  No replacement string of the example has a backslash, so the template parser is never
  consulted; here it is one that always raises.
\<close>

definition no_tmpl :: "string \<Rightarrow> error + (string \<Rightarrow> string)" where
  "no_tmpl repl = Inl ReError"

definition bare_doc_updated :: string where
  \<open>bare_doc_updated =
     doc_label ''5th Feb'' @ doc_array ''dailyProgress'' ''7, 9, 6'' @
     doc_array ''inField'' ''4, 6, 1'' @ doc_array ''totalSurveyors'' ''5, 7, 4'' @
     doc_array ''approvalPercentages'' ''25.00, 50.00, 20.00'' @
     doc_array ''surveyPercentages'' ''20.00, 10.00, 15.00'' @
     doc_array ''subdivisions''
       (sq @ ''Raikot'' @ sq @ '', '' @ sq @ ''Alpha'' @ sq @ '', '' @ sq @ ''Zeta'' @ sq) @
     build_table_body_html [rec_raikot2, rec_alpha, rec_zeta] rec_total @ nl @
     doc_th ''5-2-24'' @
     build_subdivision_cards_html [rec_raikot2, rec_alpha, rec_zeta] @ doc_charts @
     build_stats_html rec_total @ doc_heading\<close>

section \<open>Properties of the formatters\<close>

lemma floor_rat_numeral_div:
  "\<lfloor>numeral a / numeral b :: rat\<rfloor> = numeral a div numeral b"
  using floor_divide_of_int_eq [of "numeral a" "numeral b", where ?'a = rat] by simp

lemmas flt_eval = pow2_def pow10_def bitlen.simps floor_log2_def round_half_even_def
  dbl_round_def Let_def floor_rat_numeral_div py_round_def py_round2_def py_truediv_def
  py_mul_def float_of_int_def bind_e_def

lemmas str_eval = is_space_def strip_def is_digit_def is_upper_def is_lower_def lower_char_def
  upper_letters_def lower_letters_def is_c_space_def c_strip_def
  lower_def digit_val_def nat_of_digits_def split_sign_def parse_exponent_def
  parse_decimal_def float_of_str_def parse_text_def to_int_def to_percent_def


lemma str_nat_nonempty: "str_nat n \<noteq> []"
  by (subst str_nat.simps) simp

lemma join_snoc: "xs \<noteq> [] \<Longrightarrow> join sep (xs @ [y]) = join sep xs @ sep @ y"
  by (induction sep xs rule: join.induct) auto

lemma pairs_from_right_nonempty: "pairs_from_right s \<noteq> []"
  by (subst pairs_from_right.simps) simp

lemma indian_loop_pairs:
  "head \<noteq> [] \<Longrightarrow> indian_loop head parts = (h, ps) \<Longrightarrow>
   h \<noteq> [] \<and> rev (ps @ [h]) = pairs_from_right head @ rev parts"
proof (induction head parts arbitrary: h ps rule: indian_loop.induct)
  case (1 head parts)
  show ?case
  proof (cases "length head > 2")
    case True
    let ?h = "take (length head - 2) head"
    let ?p = "parts @ [drop (length head - 2) head]"
    from True have ne: "?h \<noteq> []" by auto
    from True "1.prems"(2) have "indian_loop ?h ?p = (h, ps)"
      by (subst (asm) indian_loop.simps) simp
    from "1.IH" [OF True ne this]
    have "h \<noteq> []" and "rev (ps @ [h]) = pairs_from_right ?h @ rev ?p" by auto
    moreover from True
    have "pairs_from_right head = pairs_from_right ?h @ [drop (length head - 2) head]"
      by (subst pairs_from_right.simps) simp
    ultimately show ?thesis by simp
  next
    case False
    with "1.prems" have "h = head" "ps = parts"
      by (subst (asm) indian_loop.simps, simp)+
    moreover from False have "pairs_from_right head = [head]"
      by (subst pairs_from_right.simps) simp
    ultimately show ?thesis using "1.prems"(1) by simp
  qed
qed

lemma format_indian_number_groups:
  "format_indian_number n =
     (if n < 0 then ''-'' else '''') @ join '','' (indian_groups (str_int (abs n)))"
proof (cases "length (str_int (abs n)) \<le> 3")
  case True
  then show ?thesis
    by (simp add: format_indian_number_def indian_groups_def Let_def)
next
  case False
  let ?s = "str_int (abs n)"
  let ?head = "take (length ?s - 3) ?s"
  obtain h ps where loop: "indian_loop ?head [] = (h, ps)"
    by (cases "indian_loop ?head []") auto
  from False have ne: "?head \<noteq> []" by auto
  from indian_loop_pairs [OF ne loop]
  have h: "h \<noteq> []" and r: "rev (ps @ [h]) = pairs_from_right ?head" by auto
  have "join '','' (pairs_from_right ?head @ [drop (length ?s - 3) ?s]) =
        join '','' (pairs_from_right ?head) @ '','' @ drop (length ?s - 3) ?s"
    by (rule join_snoc) (rule pairs_from_right_nonempty)
  with False loop h r show ?thesis
    by (simp add: format_indian_number_def indian_groups_def Let_def)
qed

lemmas fmt_eval = format_indian_number_def str_int_def str_nat.simps indian_loop.simps digit_char_def Let_def

lemma concat_pairs_from_right: "concat (pairs_from_right s) = s"
proof (induction s rule: pairs_from_right.induct)
  case (1 s)
  show ?case
  proof (cases "length s \<le> 2")
    case True
    then show ?thesis by (subst pairs_from_right.simps) simp
  next
    case False
    with 1 show ?thesis by (subst pairs_from_right.simps) simp
  qed
qed

lemma pairs_from_right_lengths:
  "s \<noteq> [] \<Longrightarrow> g \<in> set (pairs_from_right s) \<Longrightarrow> 1 \<le> length g \<and> length g \<le> 2"
proof (induction s rule: pairs_from_right.induct)
  case (1 s)
  show ?case
  proof (cases "length s \<le> 2")
    case True
    then have "pairs_from_right s = [s]" by (subst pairs_from_right.simps) simp
    with "1.prems" True show ?thesis by (cases s) auto
  next
    case False
    then have ne: "take (length s - 2) s \<noteq> []" by auto
    from False "1.prems"(2)
    have "g \<in> set (pairs_from_right (take (length s - 2) s)) \<or> g = drop (length s - 2) s"
      by (subst (asm) pairs_from_right.simps) auto
    then show ?thesis
    proof
      assume "g \<in> set (pairs_from_right (take (length s - 2) s))"
      with "1.IH" False ne show ?thesis by simp
    next
      assume "g = drop (length s - 2) s"
      with False show ?thesis by simp
    qed
  qed
qed

lemma pairs_from_right_tl:
  "g \<in> set (tl (pairs_from_right s)) \<Longrightarrow> length g = 2"
proof (induction s rule: pairs_from_right.induct)
  case (1 s)
  show ?case
  proof (cases "length s \<le> 2")
    case True
    with "1.prems" show ?thesis
      by (subst (asm) pairs_from_right.simps) simp
  next
    case False
    let ?h = "take (length s - 2) s"
    from False "1.prems"
    have "g \<in> set (tl (pairs_from_right ?h @ [drop (length s - 2) s]))"
      by (subst (asm) pairs_from_right.simps) simp
    then have "g \<in> set (tl (pairs_from_right ?h)) \<or> g = drop (length s - 2) s"
      using pairs_from_right_nonempty [of ?h] by (cases "pairs_from_right ?h") auto
    then show ?thesis
    proof
      assume "g \<in> set (tl (pairs_from_right ?h))"
      with "1.IH" False show ?thesis by simp
    next
      assume "g = drop (length s - 2) s"
      with False show ?thesis by simp
    qed
  qed
qed

lemma concat_indian_groups: "concat (indian_groups s) = s"
  by (simp add: indian_groups_def concat_pairs_from_right)

lemma last_indian_groups: "3 < length s \<Longrightarrow> length (last (indian_groups s)) = 3"
  by (simp add: indian_groups_def)


lemma ordinal_day:
  assumes "1 \<le> n" "n \<le> 31"
  shows "ordinal n = str_int n @
      (if 11 \<le> n \<and> n \<le> 20 then ''th''
       else if n mod 10 = 1 then ''st''
       else if n mod 10 = 2 then ''nd''
       else if n mod 10 = 3 then ''rd''
       else ''th'')"
proof -
  from assms have m: "n mod 100 = n" by simp
  show ?thesis
  proof (cases "n = 10")
    case True
    then show ?thesis by (simp add: ordinal_def)
  next
    case False
    with assms have "(10 \<le> n \<and> n \<le> 20) = (11 \<le> n \<and> n \<le> 20)" by auto
    then show ?thesis
      by (simp add: ordinal_def ordinal_suffixes_def m Let_def)
  qed
qed

text \<open>
  Claim C8.  For a day of the month \<open>n\<close> (from 1 to 31), \<open>ordinal n\<close> is the decimal
  numeral of \<open>n\<close> followed by \<open>th\<close> when \<open>n\<close> is from 11 through 20, and otherwise by
  \<open>st\<close>, \<open>nd\<close>, \<open>rd\<close> when \<open>n mod 10\<close> is 1, 2, 3 and by \<open>th\<close> in every other case; and
  1, 2, 3, 4, 11, 12, 21 give 1st, 2nd, 3rd, 4th, 11th, 12th, 21st.
\<close>

theorem ordinal_suffix_rule:
  "(1 \<le> n \<and> n \<le> 31 \<longrightarrow>
      ordinal n = str_int n @
        (if 11 \<le> n \<and> n \<le> 20 then ''th''
         else if n mod 10 = 1 then ''st''
         else if n mod 10 = 2 then ''nd''
         else if n mod 10 = 3 then ''rd''
         else ''th''))
   \<and> ordinal 1 = ''1st'' \<and> ordinal 2 = ''2nd'' \<and> ordinal 3 = ''3rd'' \<and> ordinal 4 = ''4th''
   \<and> ordinal 11 = ''11th'' \<and> ordinal 12 = ''12th'' \<and> ordinal 21 = ''21st''"
proof -
  have "ordinal 1 = ''1st''" by (simp add: ordinal_def ordinal_suffixes_def fmt_eval)
  moreover have "ordinal 2 = ''2nd''" by (simp add: ordinal_def ordinal_suffixes_def fmt_eval)
  moreover have "ordinal 3 = ''3rd''" by (simp add: ordinal_def ordinal_suffixes_def fmt_eval)
  moreover have "ordinal 4 = ''4th''" by (simp add: ordinal_def ordinal_suffixes_def fmt_eval)
  moreover have "ordinal 11 = ''11th''" by (simp add: ordinal_def ordinal_suffixes_def fmt_eval)
  moreover have "ordinal 12 = ''12th''" by (simp add: ordinal_def ordinal_suffixes_def fmt_eval)
  moreover have "ordinal 21 = ''21st''" by (simp add: ordinal_def ordinal_suffixes_def fmt_eval)
  ultimately show ?thesis using ordinal_day [of n] by blast
qed

theorem ordinal_suffix_rule_witness:
  "(1::int) \<le> 22 \<and> (22::int) \<le> 31 \<and> ordinal 22 = str_int 22 @ ''nd'' \<and> ordinal 13 = str_int 13 @ ''th''"
  using ordinal_suffix_rule [of 22] ordinal_suffix_rule [of 13] by simp

lemma str_int_neg: "0 < n \<Longrightarrow> str_int (- n) = CHR ''-'' # str_int n"
  by (simp add: str_int_def)

text \<open>
  Claim C7.  \<open>format_indian_number\<close> maps 0, 999, 1000, 100000 and 1234567 to
  \<open>0\<close>, \<open>999\<close>, \<open>1,000\<close>, \<open>1,00,000\<close> and \<open>12,34,567\<close>.  For every integer the result
  is the sign followed by the comma-separated groups of the digits of the absolute value,
  where the last three digits are one group and the digits before them are grouped in
  pairs from the right (\<open>indian_groups\<close>, whose shape is described by
  \<open>concat_indian_groups\<close>, \<open>last_indian_groups\<close>, \<open>pairs_from_right_lengths\<close> and
  \<open>pairs_from_right_tl\<close>); a negative input gives the result of its absolute value
  with a minus sign in front.
\<close>

theorem format_indian_number_rule:
  "format_indian_number 0 = ''0'' \<and> format_indian_number 999 = ''999''
   \<and> format_indian_number 1000 = ''1,000'' \<and> format_indian_number 100000 = ''1,00,000''
   \<and> format_indian_number 1234567 = ''12,34,567''
   \<and> format_indian_number n =
       (if n < 0 then ''-'' else '''') @ join '','' (indian_groups (str_int (abs n)))
   \<and> (n < 0 \<longrightarrow> format_indian_number n = ''-'' @ format_indian_number (abs n))"
proof -
  have "format_indian_number 0 = ''0''" by (simp add: ordinal_def ordinal_suffixes_def fmt_eval)
  moreover have "format_indian_number 999 = ''999''" by (simp add: ordinal_def ordinal_suffixes_def fmt_eval)
  moreover have "format_indian_number 1000 = ''1,000''" by (simp add: ordinal_def ordinal_suffixes_def fmt_eval)
  moreover have "format_indian_number 100000 = ''1,00,000''" by (simp add: ordinal_def ordinal_suffixes_def fmt_eval)
  moreover have "format_indian_number 1234567 = ''12,34,567''" by (simp add: ordinal_def ordinal_suffixes_def fmt_eval)
  moreover have g: "format_indian_number n =
       (if n < 0 then ''-'' else '''') @ join '','' (indian_groups (str_int (abs n)))"
    by (rule format_indian_number_groups)
  moreover have "n < 0 \<longrightarrow> format_indian_number n = ''-'' @ format_indian_number (abs n)"
  proof
    assume neg: "n < 0"
    then have "format_indian_number (abs n) = join '','' (indian_groups (str_int (abs n)))"
      using format_indian_number_groups [of "abs n"] by simp
    with neg show "format_indian_number n = ''-'' @ format_indian_number (abs n)"
      using format_indian_number_groups [of n] by simp
  qed
  ultimately show ?thesis by blast
qed

theorem format_indian_number_rule_witness:
  "(-1234567::int) < 0 \<and> format_indian_number (-1234567) = ''-12,34,567''"
proof -
  have neg: "(-1234567::int) < 0" by simp
  have "format_indian_number (-1234567) = ''-'' @ format_indian_number (abs (-1234567))"
    using format_indian_number_rule [of "-1234567"] neg by blast
  moreover have "format_indian_number 1234567 = ''12,34,567''"
    using format_indian_number_rule [of "-1234567"] by blast
  ultimately show ?thesis by simp
qed


section \<open>Properties of the extractor\<close>

lemma by_name_snoc: "by_name (xs @ [x]) = (by_name xs)(name x \<mapsto> x)"
  by (simp add: by_name_def)

lemma by_name_last:
  "by_name subs n =
     (if filter (\<lambda>r. name r = n) subs = [] then None
      else Some (last (filter (\<lambda>r. name r = n) subs)))"
proof (induction subs rule: rev_induct)
  case Nil
  show ?case by (simp add: by_name_def)
next
  case (snoc x xs)
  then show ?case by (simp add: by_name_snoc)
qed

lemma by_name_name: "by_name subs n = Some r \<Longrightarrow> name r = n \<and> r \<in> set subs"
proof -
  assume a: "by_name subs n = Some r"
  let ?rs = "filter (\<lambda>r. name r = n) subs"
  from a have ne: "?rs \<noteq> []" and r: "r = last ?rs"
    by (auto simp: by_name_last split: if_splits)
  from ne have "last ?rs \<in> set ?rs" by (rule last_in_set)
  with r show ?thesis by auto
qed

lemma by_name_dom: "by_name subs n \<noteq> None \<longleftrightarrow> n \<in> name ` set subs"
  by (auto simp: by_name_last filter_empty_conv)

lemma map_name_pick:
  "map name (concat (map (\<lambda>n. case by_name subs n of Some row \<Rightarrow> [row] | None \<Rightarrow> []) ns)) =
   filter (\<lambda>n. n \<in> name ` set subs) ns"
proof (induction ns)
  case Nil
  show ?case by simp
next
  case (Cons n ns)
  show ?case
  proof (cases "by_name subs n")
    case None
    with by_name_dom [of subs n] Cons show ?thesis by simp
  next
    case (Some r)
    with by_name_dom [of subs n] by_name_name [OF Some] Cons show ?thesis by simp
  qed
qed

lemma map_name_ordered:
  "map name (ordered subs) = filter (\<lambda>n. n \<in> name ` set subs) CANONICAL_ORDER"
  by (simp add: ordered_def map_name_pick)

lemma set_ordered: "set (ordered subs) \<subseteq> set subs"
  by (auto simp: ordered_def split: option.splits dest: by_name_name [OF sym] by_name_name)

lemma map_sort_key: "map f (sort_key f xs) = sort (map f xs)"
  by (rule sym, rule properties_for_sort) simp_all

lemma map_name_extras:
  "map name (extras subs) = sort (filter (\<lambda>n. n \<notin> set CANONICAL_ORDER) (map name subs))"
  by (simp add: extras_def map_sort_key filter_map comp_def)

lemma extras_stable:
  "filter (\<lambda>r. name r = k) (extras subs) =
     (if k \<in> set CANONICAL_ORDER then [] else filter (\<lambda>r. name r = k) subs)"
proof -
  have "filter (\<lambda>r. name r = k) (extras subs) =
        filter (\<lambda>r. name r = k) (filter (\<lambda>row. name row \<notin> set CANONICAL_ORDER) subs)"
    unfolding extras_def by (rule sort_key_stable)
  also have "\<dots> = (if k \<in> set CANONICAL_ORDER then [] else filter (\<lambda>r. name r = k) subs)"
    by (auto simp: filter_empty_conv intro: filter_cong)
  finally show ?thesis .
qed

lemma distinct_CANONICAL_ORDER: "distinct CANONICAL_ORDER"
  by (simp add: CANONICAL_ORDER_def)

lemma filter_pick:
  "distinct ns \<Longrightarrow>
   filter (\<lambda>r. name r = n)
     (concat (map (\<lambda>n. case by_name subs n of Some row \<Rightarrow> [row] | None \<Rightarrow> []) ns)) =
   (if n \<in> set ns then (case by_name subs n of Some row \<Rightarrow> [row] | None \<Rightarrow> []) else [])"
proof (induction ns)
  case Nil
  show ?case by simp
next
  case (Cons m ns)
  have hd: "filter (\<lambda>r. name r = n) (case by_name subs m of Some row \<Rightarrow> [row] | None \<Rightarrow> []) =
            (if m = n then (case by_name subs n of Some row \<Rightarrow> [row] | None \<Rightarrow> []) else [])"
    by (auto split: option.splits dest: by_name_name)
  from Cons show ?case by (auto simp: hd)
qed

lemma filter_ordered:
  "filter (\<lambda>r. name r = n) (ordered subs) =
   (if n \<in> set CANONICAL_ORDER \<and> filter (\<lambda>r. name r = n) subs \<noteq> []
    then [last (filter (\<lambda>r. name r = n) subs)] else [])"
proof -
  have "filter (\<lambda>r. name r = n) (ordered subs) =
        (if n \<in> set CANONICAL_ORDER
         then (case by_name subs n of Some row \<Rightarrow> [row] | None \<Rightarrow> []) else [])"
    unfolding ordered_def by (rule filter_pick [OF distinct_CANONICAL_ORDER])
  then show ?thesis by (simp add: by_name_last)
qed

lemma map_name_order_subdivisions:
  "map name (order_subdivisions subs) =
     filter (\<lambda>n. n \<in> name ` set subs) CANONICAL_ORDER @
     sort (filter (\<lambda>n. n \<notin> set CANONICAL_ORDER) (map name subs))"
  by (simp add: order_subdivisions_def map_name_ordered map_name_extras)

lemma order_subdivisions_perm:
  assumes "mset subs' = mset subs"
  shows "map name (order_subdivisions subs') = map name (order_subdivisions subs)"
proof -
  from assms have s: "set subs' = set subs" by (rule mset_eq_setD)
  from assms have "mset (map name subs') = mset (map name subs)" by simp
  from arg_cong [OF this, of "filter_mset (\<lambda>n. n \<notin> set CANONICAL_ORDER)"]
  have "mset (filter (\<lambda>n. n \<notin> set CANONICAL_ORDER) (map name subs')) =
        mset (filter (\<lambda>n. n \<notin> set CANONICAL_ORDER) (map name subs))"
    by (simp only: mset_filter)
  then have "sort (filter (\<lambda>n. n \<notin> set CANONICAL_ORDER) (map name subs')) =
             sort (filter (\<lambda>n. n \<notin> set CANONICAL_ORDER) (map name subs))"
    by (intro properties_for_sort) simp_all
  with s show ?thesis by (simp add: map_name_order_subdivisions)
qed

lemma collect_rows_subdivisions:
  "collect_rows fr col rows subs0 t0 = Inr (subs, t) \<Longrightarrow>
   subs = subs0 @ subdivision_rows fr col rows"
proof (induction rows arbitrary: subs0 t0)
  case Nil
  then show ?case by (simp add: subdivision_rows_def)
next
  case (Cons row rows)
  show ?case
  proof (cases "row_record fr col row")
    case (Inl e)
    with Cons.prems show ?thesis by simp
  next
    case (Inr r)
    show ?thesis
    proof (cases r)
      case None
      with Inr Cons.prems have "collect_rows fr col rows subs0 t0 = Inr (subs, t)" by simp
      from Cons.IH [OF this] Inr None show ?thesis by (simp add: subdivision_rows_def)
    next
      case (Some p)
      obtain key rd where p: "p = (key, rd)" by (cases p)
      show ?thesis
      proof (cases "key = ''total''")
        case True
        with Inr Some p Cons.prems
        have "collect_rows fr col rows subs0 (Some rd) = Inr (subs, t)" by simp
        from Cons.IH [OF this] Inr Some p True show ?thesis
          by (simp add: subdivision_rows_def)
      next
        case False
        with Inr Some p Cons.prems
        have "collect_rows fr col rows (subs0 @ [rd]) t0 = Inr (subs, t)" by simp
        from Cons.IH [OF this] Inr Some p False show ?thesis
          by (simp add: subdivision_rows_def)
      qed
    qed
  qed
qed


lemma read_excel_data_unfold:
  assumes "read_excel_data fr col h rows = Inr (out, t)"
  shows "\<exists>subs tot. collect_rows fr col (drop (h + 1) rows) [] None = Inr (subs, tot)
           \<and> subs \<noteq> [] \<and> out = order_subdivisions subs
           \<and> (case tot of Some t' \<Rightarrow> t = t' | None \<Rightarrow> computed_totals out = Inr t)"
  using assms unfolding read_excel_data_def bind_e_def Let_def
  by (auto split: sum.splits if_splits option.splits prod.splits)

lemma read_excel_data_subdivisions:
  assumes "read_excel_data fr col h rows = Inr (out, t)"
  shows "out = order_subdivisions (subdivision_rows fr col (drop (h + 1) rows))"
proof -
  from read_excel_data_unfold [OF assms] obtain subs tot
    where c: "collect_rows fr col (drop (h + 1) rows) [] None = Inr (subs, tot)"
      and o: "out = order_subdivisions subs" by blast
  from collect_rows_subdivisions [OF c] o show ?thesis by simp
qed

lemma mset_subdivision_rows:
  assumes "mset rows' = mset rows"
  shows "mset (subdivision_rows fr col rows') = mset (subdivision_rows fr col rows)"
proof -
  let ?f = "\<lambda>row. case row_record fr col row of
                           Inr (Some (key, rd)) \<Rightarrow> (if key = ''total'' then [] else [rd])
                         | _ \<Rightarrow> []"
  have "mset (concat (map ?f xs)) = (\<Sum>x\<in>#mset xs. mset (?f x))" for xs
    by (induction xs) simp_all
  with assms show ?thesis by (simp add: subdivision_rows_def)
qed





subsection \<open>The example sheet, evaluated\<close>

lemma row_recordI:
  assumes "c_name col < length row" and "row ! c_name col = CStr s" and "strip s \<noteq> []"
    and "int_field row (c_uploaded_villages col) = Inr uv"
    and "int_field row (c_uploaded_plots col) = Inr up"
    and "int_field row (c_daily_target col) = Inr dt"
    and "int_field row (c_surveyed_today col) = Inr st"
    and "int_field row (c_total_surveyed col) = Inr ts"
    and "percent_field row (c_survey_percent col) = Inr sp"
    and "int_field row (c_approved col) = Inr ap"
    and "percent_field row (c_approval_percent col) = Inr app"
    and "int_field row (c_total_surveyors col) = Inr tsv"
    and "int_field row (c_in_field col) = Inr infd"
  shows "row_record fr col row =
     Inr (Some (normalize_name (strip s),
        \<lparr>name = display_name (strip s), uploaded_villages = uv, uploaded_plots = up,
         daily_target = dt, surveyed_today = st, total_surveyed = ts,
         survey_percent = sp, approved = ap, approval_percent = app,
         total_surveyors = tsv, in_field = infd\<rparr>))"
  using assms by (simp add: row_record_def bind_e_def Let_def py_str_def)

lemma row_record_skip:
  "c_name col < length row \<Longrightarrow> row ! c_name col = CNone \<Longrightarrow> row_record fr col row = Inr None"
  by (simp add: row_record_def)

lemmas cell_eval = int_field_def percent_field_def index_cell_def str_eval flt_eval

lemma example_row1:
  "row_record (\<lambda>x. []) example_columns sheet_row1 = Inr (Some (''raikot'', rec_raikot1))"
proof -
  let ?row = "[CStr ''raikot'', CInt 1, CInt 100, CInt 10, CInt 5, CInt 20, CStr ''20.0'',
               CInt 10, CStr ''50'', CInt 3, CInt 2]"
  have n: "normalize_name (strip ''raikot'') = ''raikot''"
    and d: "display_name (strip ''raikot'') = ''Raikot''"
    by (simp_all add: display_name_def DISPLAY_NAME_MAP_def normalize_name_def str_eval)
  have "row_record (\<lambda>x. []) example_columns ?row =
        Inr (Some (normalize_name (strip ''raikot''),
          \<lparr>name = display_name (strip ''raikot''), uploaded_villages = 1, uploaded_plots = 100,
           daily_target = 10, surveyed_today = 5, total_surveyed = 20,
           survey_percent = Finite False 20, approved = 10,
           approval_percent = Finite False 50, total_surveyors = 3, in_field = 2\<rparr>))"
    by (rule row_recordI) (simp_all add: example_columns_def cell_eval)
  then show ?thesis by (simp add: n d sheet_row1_def rec_raikot1_def)
qed

lemma example_row2:
  "row_record (\<lambda>x. []) example_columns sheet_row2 = Inr (Some (''zeta'', rec_zeta))"
proof -
  let ?row = "[CStr ''Zeta'', CInt 2, CInt 200, CInt 20, CInt 6, CInt 30, CInt 15, CInt 6,
               CInt 20, CInt 4, CInt 1]"
  have n: "normalize_name (strip ''Zeta'') = ''zeta''"
    and d: "display_name (strip ''Zeta'') = ''Zeta''"
    by (simp_all add: display_name_def DISPLAY_NAME_MAP_def normalize_name_def str_eval)
  have "row_record (\<lambda>x. []) example_columns ?row =
        Inr (Some (normalize_name (strip ''Zeta''),
          \<lparr>name = display_name (strip ''Zeta''), uploaded_villages = 2, uploaded_plots = 200,
           daily_target = 20, surveyed_today = 6, total_surveyed = 30,
           survey_percent = Finite False 15, approved = 6,
           approval_percent = Finite False 20, total_surveyors = 4, in_field = 1\<rparr>))"
    by (rule row_recordI) (simp_all add: example_columns_def cell_eval)
  then show ?thesis by (simp add: n d sheet_row2_def rec_zeta_def)
qed

lemma example_row3:
  "row_record (\<lambda>x. []) example_columns sheet_row3 = Inr (Some (''raikot'', rec_raikot2))"
proof -
  let ?row = "[CStr '' RAIKOT'', CInt 3, CInt 300, CInt 30, CInt 7, CInt 60, CInt 20, CInt 15,
               CInt 25, CInt 5, CInt 4]"
  have n: "normalize_name (strip '' RAIKOT'') = ''raikot''"
    and d: "display_name (strip '' RAIKOT'') = ''Raikot''"
    by (simp_all add: display_name_def DISPLAY_NAME_MAP_def normalize_name_def str_eval)
  have "row_record (\<lambda>x. []) example_columns ?row =
        Inr (Some (normalize_name (strip '' RAIKOT''),
          \<lparr>name = display_name (strip '' RAIKOT''), uploaded_villages = 3, uploaded_plots = 300,
           daily_target = 30, surveyed_today = 7, total_surveyed = 60,
           survey_percent = Finite False 20, approved = 15,
           approval_percent = Finite False 25, total_surveyors = 5, in_field = 4\<rparr>))"
    by (rule row_recordI) (simp_all add: example_columns_def cell_eval)
  then show ?thesis by (simp add: n d sheet_row3_def rec_raikot2_def)
qed

lemma example_row4:
  "row_record (\<lambda>x. []) example_columns sheet_row4 = Inr None"
  by (rule row_record_skip) (simp_all add: example_columns_def sheet_row4_def)

lemma example_row5:
  "row_record (\<lambda>x. []) example_columns sheet_row5 = Inr (Some (''alpha'', rec_alpha))"
proof -
  let ?row = "[CStr ''Alpha'', CInt 5, CInt 400, CInt 50, CInt 9, CInt 10, CInt 10, CInt 5,
               CInt 50, CInt 7, CInt 6]"
  have n: "normalize_name (strip ''Alpha'') = ''alpha''"
    and d: "display_name (strip ''Alpha'') = ''Alpha''"
    by (simp_all add: display_name_def DISPLAY_NAME_MAP_def normalize_name_def str_eval)
  have "row_record (\<lambda>x. []) example_columns ?row =
        Inr (Some (normalize_name (strip ''Alpha''),
          \<lparr>name = display_name (strip ''Alpha''), uploaded_villages = 5, uploaded_plots = 400,
           daily_target = 50, surveyed_today = 9, total_surveyed = 10,
           survey_percent = Finite False 10, approved = 5,
           approval_percent = Finite False 50, total_surveyors = 7, in_field = 6\<rparr>))"
    by (rule row_recordI) (simp_all add: example_columns_def cell_eval)
  then show ?thesis by (simp add: n d sheet_row5_def rec_alpha_def)
qed

lemma example_data_rows:
  "drop (0 + 1) example_sheet =
     [sheet_row1, sheet_row2, sheet_row3, sheet_row4, sheet_row5]"
  by (simp add: example_sheet_def)

lemma example_collect:
  "collect_rows (\<lambda>x. []) example_columns (drop (0 + 1) example_sheet) [] None =
     Inr ([rec_raikot1, rec_zeta, rec_raikot2, rec_alpha], None)"
  unfolding example_data_rows
  by (simp add: example_row1 example_row2 example_row3 example_row4 example_row5)

lemma example_subdivision_rows:
  "subdivision_rows (\<lambda>x. []) example_columns (drop (0 + 1) example_sheet) =
     [rec_raikot1, rec_zeta, rec_raikot2, rec_alpha]"
  unfolding example_data_rows subdivision_rows_def
  by (simp add: example_row1 example_row2 example_row3 example_row4 example_row5)


lemmas rec_names = rec_raikot1_def rec_zeta_def rec_raikot2_def rec_alpha_def

lemma example_by_name:
  "by_name [rec_raikot1, rec_zeta, rec_raikot2, rec_alpha] =
     [''Raikot'' \<mapsto> rec_raikot2, ''Zeta'' \<mapsto> rec_zeta, ''Alpha'' \<mapsto> rec_alpha]"
  by (simp add: by_name_def rec_names fun_upd_twist)

lemma example_ordered:
  "ordered [rec_raikot1, rec_zeta, rec_raikot2, rec_alpha] = [rec_raikot2]"
  unfolding ordered_def example_by_name by (simp add: CANONICAL_ORDER_def)

lemma example_extras:
  "extras [rec_raikot1, rec_zeta, rec_raikot2, rec_alpha] = [rec_alpha, rec_zeta]"
  by (simp add: extras_def CANONICAL_ORDER_def rec_names)

lemma example_order:
  "order_subdivisions [rec_raikot1, rec_zeta, rec_raikot2, rec_alpha] =
     [rec_raikot2, rec_alpha, rec_zeta]"
  by (simp add: order_subdivisions_def example_ordered example_extras)

lemma example_percent1: "percent_of 100 900 = Inr (Finite False (781796747813847 / 70368744177664))"
  by (simp add: percent_of_def flt_eval)

lemma example_percent2: "percent_of 26 100 = Inr (Finite False 26)"
  by (simp add: percent_of_def flt_eval)

lemma example_totals:
  "computed_totals [rec_raikot2, rec_alpha, rec_zeta] = Inr rec_total"
  by (simp add: computed_totals_def rec_names rec_total_def example_percent1 example_percent2
      bind_e_def)

lemma example_read:
  "read_excel_data (\<lambda>x. []) example_columns 0 example_sheet =
     Inr ([rec_raikot2, rec_alpha, rec_zeta], rec_total)"
  unfolding read_excel_data_def example_collect
  by (simp add: example_order example_totals bind_e_def)

lemma example_row6:
  "row_record (\<lambda>x. []) example_columns sheet_row6 = Inr (Some (''alpha'', rec_alpha_lc))"
proof -
  let ?row = "[CStr ''alpha'', CInt 1, CInt 200, CInt 10, CInt 4, CInt 70, CInt 35, CInt 44,
               CInt 63, CInt 1, CInt 1]"
  have n: "normalize_name (strip ''alpha'') = ''alpha''"
    and d: "display_name (strip ''alpha'') = ''alpha''"
    by (simp_all add: display_name_def DISPLAY_NAME_MAP_def normalize_name_def str_eval)
  have "row_record (\<lambda>x. []) example_columns ?row =
        Inr (Some (normalize_name (strip ''alpha''),
          \<lparr>name = display_name (strip ''alpha''), uploaded_villages = 1, uploaded_plots = 200,
           daily_target = 10, surveyed_today = 4, total_surveyed = 70,
           survey_percent = Finite False 35, approved = 44,
           approval_percent = Finite False 63, total_surveyors = 1, in_field = 1\<rparr>))"
    by (rule row_recordI) (simp_all add: example_columns_def cell_eval)
  then show ?thesis by (simp add: n d sheet_row6_def rec_alpha_lc_def)
qed

lemma mixed_case_collect:
  "collect_rows (\<lambda>x. []) example_columns (drop (0 + 1) mixed_case_sheet) [] None =
     Inr ([rec_alpha_lc, rec_zeta], None)"
  by (simp add: mixed_case_sheet_def example_row6 example_row2)

lemma mixed_case_order:
  "order_subdivisions [rec_alpha_lc, rec_zeta] = [rec_zeta, rec_alpha_lc]"
  by (simp add: order_subdivisions_def ordered_def by_name_def extras_def CANONICAL_ORDER_def
      rec_zeta_def rec_alpha_lc_def)

lemma mixed_case_totals:
  "computed_totals [rec_zeta, rec_alpha_lc] = Inr rec_total_mixed"
  by (simp add: computed_totals_def rec_zeta_def rec_alpha_lc_def rec_total_mixed_def
      percent_of_def flt_eval)

lemma mixed_case_read:
  "read_excel_data (\<lambda>x. []) example_columns 0 mixed_case_sheet =
     Inr ([rec_zeta, rec_alpha_lc], rec_total_mixed)"
  unfolding read_excel_data_def mixed_case_collect
  by (simp add: mixed_case_order mixed_case_totals bind_e_def)

lemma permuted_data_rows:
  "drop (0 + 1) permuted_sheet = [sheet_row5, sheet_row4, sheet_row3, sheet_row2, sheet_row1]"
  by (simp add: permuted_sheet_def)

lemma permuted_collect:
  "collect_rows (\<lambda>x. []) example_columns (drop (0 + 1) permuted_sheet) [] None =
     Inr ([rec_alpha, rec_raikot2, rec_zeta, rec_raikot1], None)"
  unfolding permuted_data_rows
  by (simp add: example_row1 example_row2 example_row3 example_row4 example_row5)

lemma permuted_order:
  "order_subdivisions [rec_alpha, rec_raikot2, rec_zeta, rec_raikot1] =
     [rec_raikot1, rec_alpha, rec_zeta]"
  by (simp add: order_subdivisions_def ordered_def by_name_def extras_def CANONICAL_ORDER_def
      rec_names)

lemma permuted_percent1:
  "percent_of 60 700 = Inr (Finite False (1206120275205161 / 140737488355328))"
  by (simp add: percent_of_def flt_eval)

lemma permuted_percent2: "percent_of 21 60 = Inr (Finite False 35)"
  by (simp add: percent_of_def flt_eval)

lemma permuted_totals:
  "computed_totals [rec_raikot1, rec_alpha, rec_zeta] = Inr rec_total_permuted"
  by (simp add: computed_totals_def rec_names rec_total_permuted_def permuted_percent1
      permuted_percent2 bind_e_def)

lemma permuted_read:
  "read_excel_data (\<lambda>x. []) example_columns 0 permuted_sheet =
     Inr ([rec_raikot1, rec_alpha, rec_zeta], rec_total_permuted)"
  unfolding read_excel_data_def permuted_collect
  by (simp add: permuted_order permuted_totals bind_e_def)

lemma permuted_mset:
  "mset (drop (0 + 1) permuted_sheet) = mset (drop (0 + 1) example_sheet)"
  unfolding permuted_data_rows example_data_rows by simp

text \<open>
  Claim C5.  When \<open>read_excel_data\<close> returns, the record list it returns is made of two
  parts.  First come the records with a known subdivision name: their names are the names
  of \<open>CANONICAL_ORDER\<close> that occur among the rows, in the order of \<open>CANONICAL_ORDER\<close>.
  After them come the records with any other name: all of them, sorted by name, where names
  are compared character by character by character code (so every capital letter comes
  before every small letter), and records with the same name stay in row order.  A sheet
  with the same data rows in another order gives the same sequence of names.
\<close>

theorem canonical_ordering:
  assumes "read_excel_data fr col h rows = Inr (out, t)"
  shows "out = ordered (subdivision_rows fr col (drop (h + 1) rows)) @
               extras (subdivision_rows fr col (drop (h + 1) rows))
   \<and> map name (ordered (subdivision_rows fr col (drop (h + 1) rows))) =
       filter (\<lambda>n. n \<in> name ` set (subdivision_rows fr col (drop (h + 1) rows))) CANONICAL_ORDER
   \<and> set (ordered (subdivision_rows fr col (drop (h + 1) rows))) \<subseteq>
       set (subdivision_rows fr col (drop (h + 1) rows))
   \<and> map name (extras (subdivision_rows fr col (drop (h + 1) rows))) =
       sort (filter (\<lambda>n. n \<notin> set CANONICAL_ORDER)
               (map name (subdivision_rows fr col (drop (h + 1) rows))))
   \<and> (\<forall>k. filter (\<lambda>r. name r = k) (extras (subdivision_rows fr col (drop (h + 1) rows))) =
          (if k \<in> set CANONICAL_ORDER then []
           else filter (\<lambda>r. name r = k) (subdivision_rows fr col (drop (h + 1) rows))))
   \<and> (\<forall>rows' out' t'.
          mset (drop (h + 1) rows') = mset (drop (h + 1) rows)
          \<and> read_excel_data fr col h rows' = Inr (out', t')
          \<longrightarrow> map name out' = map name out)"
proof -
  let ?S = "subdivision_rows fr col (drop (h + 1) rows)"
  from read_excel_data_subdivisions [OF assms]
  have o: "out = order_subdivisions ?S" .
  have p: "map name out' = map name out"
    if m: "mset (drop (h + 1) rows') = mset (drop (h + 1) rows)"
      and r: "read_excel_data fr col h rows' = Inr (out', t')" for rows' out' t'
  proof -
    from read_excel_data_subdivisions [OF r]
    have o': "out' = order_subdivisions (subdivision_rows fr col (drop (h + 1) rows'))" .
    from mset_subdivision_rows [OF m]
    have "mset (subdivision_rows fr col (drop (h + 1) rows')) = mset ?S" .
    from order_subdivisions_perm [OF this] o o' show ?thesis by simp
  qed
  from o have "out = ordered ?S @ extras ?S" by (simp add: order_subdivisions_def)
  with p map_name_ordered [of ?S] set_ordered [of ?S] map_name_extras [of ?S]
    extras_stable [of _ ?S]
  show ?thesis by blast
qed

theorem canonical_ordering_witness:
  "read_excel_data (\<lambda>x. []) example_columns 0 example_sheet =
     Inr ([rec_raikot2, rec_alpha, rec_zeta], rec_total)
   \<and> map name [rec_raikot2, rec_alpha, rec_zeta] = [''Raikot'', ''Alpha'', ''Zeta'']
   \<and> mset (drop (0 + 1) permuted_sheet) = mset (drop (0 + 1) example_sheet)
   \<and> read_excel_data (\<lambda>x. []) example_columns 0 permuted_sheet =
       Inr ([rec_raikot1, rec_alpha, rec_zeta], rec_total_permuted)
   \<and> map name [rec_raikot1, rec_alpha, rec_zeta] = [''Raikot'', ''Alpha'', ''Zeta'']"
proof -
  have n: "map name [rec_raikot2, rec_alpha, rec_zeta] = [''Raikot'', ''Alpha'', ''Zeta'']"
    by (simp add: rec_names)
  from canonical_ordering [OF example_read] permuted_mset permuted_read
  have "map name [rec_raikot1, rec_alpha, rec_zeta] = map name [rec_raikot2, rec_alpha, rec_zeta]"
    by blast
  with n have "map name [rec_raikot1, rec_alpha, rec_zeta] = [''Raikot'', ''Alpha'', ''Zeta'']"
    by (simp only:)
  with example_read n permuted_mset permuted_read show ?thesis by blast
qed

theorem canonical_ordering_counterexample:
  "read_excel_data (\<lambda>x. []) example_columns 0 mixed_case_sheet =
     Inr ([rec_zeta, rec_alpha_lc], rec_total_mixed)
   \<and> map name [rec_zeta, rec_alpha_lc] = [''Zeta'', ''alpha'']
   \<and> \<not> alphabetical_spec (map name [rec_zeta, rec_alpha_lc])"
  using mixed_case_read
  by (simp add: rec_zeta_def rec_alpha_lc_def alphabetical_spec_def lower_def lower_char_def
      upper_letters_def lower_letters_def)

text \<open>
  Claim C9.  When rows of the sheet (one, two or more) give records with the same known
  subdivision name \<open>n\<close>, the list that \<open>read_excel_data\<close> returns holds exactly one record
  named \<open>n\<close>: the record of the last such row.  It is in the canonically ordered part, and
  the part of the other records holds none.
\<close>

theorem last_write_wins:
  assumes "read_excel_data fr col h rows = Inr (out, t)"
    and "n \<in> set CANONICAL_ORDER"
    and "rs = filter (\<lambda>r. name r = n) (subdivision_rows fr col (drop (h + 1) rows))"
    and "rs \<noteq> []"
  shows "out = ordered (subdivision_rows fr col (drop (h + 1) rows)) @
               extras (subdivision_rows fr col (drop (h + 1) rows))
         \<and> filter (\<lambda>r. name r = n) (ordered (subdivision_rows fr col (drop (h + 1) rows))) = [last rs]
         \<and> filter (\<lambda>r. name r = n) (extras (subdivision_rows fr col (drop (h + 1) rows))) = []
         \<and> filter (\<lambda>r. name r = n) out = [last rs]"
proof -
  let ?S = "subdivision_rows fr col (drop (h + 1) rows)"
  from read_excel_data_subdivisions [OF assms(1)]
  have o: "out = ordered ?S @ extras ?S" by (simp add: order_subdivisions_def)
  from assms(2-4) have a: "filter (\<lambda>r. name r = n) (ordered ?S) = [last rs]"
    by (simp add: filter_ordered)
  from assms(2) have b: "filter (\<lambda>r. name r = n) (extras ?S) = []"
    by (simp add: extras_stable)
  from o a b show ?thesis by simp
qed

theorem last_write_wins_witness:
  "read_excel_data (\<lambda>x. []) example_columns 0 example_sheet =
     Inr ([rec_raikot2, rec_alpha, rec_zeta], rec_total)
   \<and> ''Raikot'' \<in> set CANONICAL_ORDER
   \<and> filter (\<lambda>r. name r = ''Raikot'')
        (subdivision_rows (\<lambda>x. []) example_columns (drop (0 + 1) example_sheet)) =
      [rec_raikot1, rec_raikot2]
   \<and> filter (\<lambda>r. name r = ''Raikot'') [rec_raikot2, rec_alpha, rec_zeta] = [rec_raikot2]"
proof -
  have c: "''Raikot'' \<in> set CANONICAL_ORDER" by (simp add: CANONICAL_ORDER_def)
  have f: "filter (\<lambda>r. name r = ''Raikot'')
        (subdivision_rows (\<lambda>x. []) example_columns (drop (0 + 1) example_sheet)) =
      [rec_raikot1, rec_raikot2]"
    unfolding example_subdivision_rows by (simp add: rec_names)
  have ne: "[rec_raikot1, rec_raikot2] \<noteq> []" by simp
  from last_write_wins [OF example_read c f [symmetric] ne]
  have "filter (\<lambda>r. name r = ''Raikot'') [rec_raikot2, rec_alpha, rec_zeta] =
        [last [rec_raikot1, rec_raikot2]]" by blast
  with example_read c f show ?thesis by simp
qed



section \<open>Properties of the numeric coercion\<close>


lemma round_half_even_int: "round_half_even (of_int k) = k"
  by (simp add: round_half_even_def)

lemma parse_text_cases:
  "parse_text s =
     (let text = filter (\<lambda>c. c \<noteq> CHR '','') (strip s)
      in case float_of_str text of
           None \<Rightarrow> Finite False 0
         | Some x \<Rightarrow> if text = [] \<or> text = ''-'' then Finite False 0 else x)"
  by (simp add: parse_text_def Let_def split: option.splits)







lemma blank_text: "strip s = [] \<Longrightarrow> filter (\<lambda>c. c \<noteq> CHR '','') (strip s) = []"
  by simp




text \<open>
  Claim C10.  \<open>to_int\<close> raises on the text cells \<open>inf\<close> and \<open>-Infinity\<close>
  (\<open>OverflowError\<close> from \<open>round\<close>), so the row loop raises on a row with such a cell.
\<close>

theorem to_int_raises:
  "to_int (CStr ''inf'') = Inl OverflowError
   \<and> to_int (CStr ''-Infinity'') = Inl OverflowError
   \<and> row_record (\<lambda>x. []) example_columns
        [CStr ''Raikot'', CStr ''inf'', CNone, CNone, CNone, CNone, CNone, CNone, CNone, CNone,
         CNone] = Inl OverflowError"
proof -
  have a: "to_int (CStr ''inf'') = Inl OverflowError" by (simp add: str_eval flt_eval)
  have b: "to_int (CStr ''-Infinity'') = Inl OverflowError" by (simp add: str_eval flt_eval)
  have s: "strip ''Raikot'' \<noteq> []" by (simp add: str_eval)
  have "row_record (\<lambda>x. []) example_columns
        [CStr ''Raikot'', CStr ''inf'', CNone, CNone, CNone, CNone, CNone, CNone, CNone, CNone,
         CNone] = Inl OverflowError"
    using a s
    by (simp add: row_record_def example_columns_def py_str_def int_field_def index_cell_def
        bind_e_def)
  with a b show ?thesis by blast
qed

section \<open>Properties of the renderer\<close>

subsection \<open>The example document, step by step\<close>

lemma example_dates:
  "format_as_of_date (report_date example_data) = ''5th February 2024''"
  "format_surveyed_header_date (report_date example_data) = ''5-2-24''"
  "format_daily_chart_label (report_date example_data) = ''5th Feb''"
  by (simp_all add: example_data_def format_as_of_date_def format_surveyed_header_date_def
      format_daily_chart_label_def ordinal_def ordinal_suffixes_def MONTH_NAMES_def MONTH_ABBR_def
      str_int_def str_nat.simps digit_char_def)

lemma example_arrays:
  "join '', '' (map (\<lambda>row. sq @ name row @ sq) [rec_raikot2, rec_alpha, rec_zeta]) =
     sq @ ''Raikot'' @ sq @ '', '' @ sq @ ''Alpha'' @ sq @ '', '' @ sq @ ''Zeta'' @ sq"
  "join '', '' (map (\<lambda>row. fmt2 (survey_percent row)) [rec_raikot2, rec_alpha, rec_zeta]) =
     ''20.00, 10.00, 15.00''"
  "join '', '' (map (\<lambda>row. fmt2 (approval_percent row)) [rec_raikot2, rec_alpha, rec_zeta]) =
     ''25.00, 50.00, 20.00''"
  "join '', '' (map (\<lambda>row. str_int (total_surveyors row)) [rec_raikot2, rec_alpha, rec_zeta]) =
     ''5, 7, 4''"
  "join '', '' (map (\<lambda>row. str_int (in_field row)) [rec_raikot2, rec_alpha, rec_zeta]) =
     ''4, 6, 1''"
  "join '', '' (map (\<lambda>row. str_int (surveyed_today row)) [rec_raikot2, rec_alpha, rec_zeta]) =
     ''7, 9, 6''"
  by (simp_all add: rec_names fmt2_def two_digits_def round_half_even_def
      floor_rat_numeral_div str_int_def str_nat.simps digit_char_def Let_def)

lemma example_fields:
  "subdivisions example_data = [rec_raikot2, rec_alpha, rec_zeta]"
  "totals example_data = rec_total"
  by (simp_all add: example_data_def)

lemma step_as_of_search:
  \<open>re_search as_of_re
     (doc_label ''1st Jan'' @ doc_array ''dailyProgress'' [] @
      doc_array ''inField'' [] @ doc_array ''totalSurveyors'' [] @
      doc_array ''approvalPercentages'' [] @ doc_array ''surveyPercentages'' ''1, 2'' @
      doc_array ''subdivisions'' [] @ doc_tbody @ nl @ doc_th ''1-1-24'' @
      ''    <div class="subdivision-grid">'' @ doc_charts @
      ''    <div class="stats-grid">'' @ doc_heading) = None\<close>
  by code_simp

lemma step_as_of:
  \<open>re_sub1 no_tmpl as_of_re
     (''<p>Ludhiana District | Data as of '' @ ''5th February 2024'' @ ''</p>'')
     (doc_label ''1st Jan'' @ doc_array ''dailyProgress'' [] @
      doc_array ''inField'' [] @ doc_array ''totalSurveyors'' [] @
      doc_array ''approvalPercentages'' [] @ doc_array ''surveyPercentages'' ''1, 2'' @
      doc_array ''subdivisions'' [] @ doc_tbody @ nl @ doc_th ''1-1-24'' @
      ''    <div class="subdivision-grid">'' @ doc_charts @
      ''    <div class="stats-grid">'' @ doc_heading) =
   Inr (doc_label ''1st Jan'' @ doc_array ''dailyProgress'' [] @
       doc_array ''inField'' [] @ doc_array ''totalSurveyors'' [] @
       doc_array ''approvalPercentages'' [] @ doc_array ''surveyPercentages'' ''1, 2'' @
       doc_array ''subdivisions'' [] @ doc_tbody @ nl @ doc_th ''1-1-24'' @
       ''    <div class="subdivision-grid">'' @ doc_charts @
       ''    <div class="stats-grid">'' @ doc_heading)\<close>
  unfolding re_sub1_def step_as_of_search by (simp add: bind_e_def)

lemma step_stats:
  \<open>replace_between
     (doc_label ''1st Jan'' @ doc_array ''dailyProgress'' [] @
      doc_array ''inField'' [] @ doc_array ''totalSurveyors'' [] @
      doc_array ''approvalPercentages'' [] @ doc_array ''surveyPercentages'' ''1, 2'' @
      doc_array ''subdivisions'' [] @ doc_tbody @ nl @ doc_th ''1-1-24'' @
      ''    <div class="subdivision-grid">'' @ doc_charts @
      ''    <div class="stats-grid">'' @ doc_heading)
     ''    <div class="stats-grid">''
     (nl @ nl @ ''    <h2 style="margin: 30px 0 20px 0; padding-left: 10px;">'') S =
   Inr (doc_label ''1st Jan'' @ doc_array ''dailyProgress'' [] @
       doc_array ''inField'' [] @ doc_array ''totalSurveyors'' [] @
       doc_array ''approvalPercentages'' [] @ doc_array ''surveyPercentages'' ''1, 2'' @
       doc_array ''subdivisions'' [] @ doc_tbody @ nl @ doc_th ''1-1-24'' @
       ''    <div class="subdivision-grid">'' @ doc_charts @ S @ doc_heading)\<close>
  by code_simp

lemma step_cards:
  \<open>replace_between
     (doc_label ''1st Jan'' @ doc_array ''dailyProgress'' [] @
      doc_array ''inField'' [] @ doc_array ''totalSurveyors'' [] @
      doc_array ''approvalPercentages'' [] @ doc_array ''surveyPercentages'' ''1, 2'' @
      doc_array ''subdivisions'' [] @ doc_tbody @ nl @ doc_th ''1-1-24'' @
      ''    <div class="subdivision-grid">'' @ doc_charts @ Z)
     ''    <div class="subdivision-grid">''
     (nl @ nl @ ''    <!-- Charts: survey, approval, surveyors, daily progress -->'') C =
   Inr (doc_label ''1st Jan'' @ doc_array ''dailyProgress'' [] @
       doc_array ''inField'' [] @ doc_array ''totalSurveyors'' [] @
       doc_array ''approvalPercentages'' [] @ doc_array ''surveyPercentages'' ''1, 2'' @
       doc_array ''subdivisions'' [] @ doc_tbody @ nl @ doc_th ''1-1-24'' @ C @
       doc_charts @ Z)\<close>
  by code_simp

lemma step_header:
  \<open>re_sub1 no_tmpl surveyed_th_re (''<th>Surveyed ('' @ ''5-2-24'' @ '')</th>'')
     (doc_label ''1st Jan'' @ doc_array ''dailyProgress'' [] @
      doc_array ''inField'' [] @ doc_array ''totalSurveyors'' [] @
      doc_array ''approvalPercentages'' [] @ doc_array ''surveyPercentages'' ''1, 2'' @
      doc_array ''subdivisions'' [] @ doc_tbody @ nl @ doc_th ''1-1-24'' @ Z) =
   Inr (doc_label ''1st Jan'' @ doc_array ''dailyProgress'' [] @
       doc_array ''inField'' [] @ doc_array ''totalSurveyors'' [] @
       doc_array ''approvalPercentages'' [] @ doc_array ''surveyPercentages'' ''1, 2'' @
       doc_array ''subdivisions'' [] @ doc_tbody @ nl @ doc_th ''5-2-24'' @ Z)\<close>
  by code_simp

lemma step_tbody_start:
  \<open>find_str ''            <tbody>''
     (doc_label ''1st Jan'' @ doc_array ''dailyProgress'' [] @
      doc_array ''inField'' [] @ doc_array ''totalSurveyors'' [] @
      doc_array ''approvalPercentages'' [] @ doc_array ''surveyPercentages'' ''1, 2'' @
      doc_array ''subdivisions'' [] @ doc_tbody @ Z) = Some 198\<close>
  by code_simp

lemma step_tbody_end:
  \<open>find_from
     (doc_label ''1st Jan'' @ doc_array ''dailyProgress'' [] @
      doc_array ''inField'' [] @ doc_array ''totalSurveyors'' [] @
      doc_array ''approvalPercentages'' [] @ doc_array ''surveyPercentages'' ''1, 2'' @
      doc_array ''subdivisions'' [] @ doc_tbody @ Z)
     ''            </tbody>'' 198 = Some 218\<close>
  by code_simp

lemma step_tbody:
  \<open>take 198
     (doc_label ''1st Jan'' @ doc_array ''dailyProgress'' [] @
      doc_array ''inField'' [] @ doc_array ''totalSurveyors'' [] @
      doc_array ''approvalPercentages'' [] @ doc_array ''surveyPercentages'' ''1, 2'' @
      doc_array ''subdivisions'' [] @ doc_tbody @ Z) @
   T @
   drop (218 + length ''            </tbody>'')
     (doc_label ''1st Jan'' @ doc_array ''dailyProgress'' [] @
      doc_array ''inField'' [] @ doc_array ''totalSurveyors'' [] @
      doc_array ''approvalPercentages'' [] @ doc_array ''surveyPercentages'' ''1, 2'' @
      doc_array ''subdivisions'' [] @ doc_tbody @ Z) =
   doc_label ''1st Jan'' @ doc_array ''dailyProgress'' [] @ doc_array ''inField'' [] @
   doc_array ''totalSurveyors'' [] @ doc_array ''approvalPercentages'' [] @
   doc_array ''surveyPercentages'' ''1, 2'' @ doc_array ''subdivisions'' [] @ T @ Z\<close>
  by (simp add: doc_label_def doc_array_def doc_tbody_def nl_def sq_def)

lemma step_array_subdivisions:
  \<open>replace_array_const no_tmpl
     (doc_label ''1st Jan'' @ doc_array ''dailyProgress'' [] @
      doc_array ''inField'' [] @ doc_array ''totalSurveyors'' [] @
      doc_array ''approvalPercentages'' [] @ doc_array ''surveyPercentages'' ''1, 2'' @
      doc_array ''subdivisions'' [] @ Z)
     ''subdivisions'' (sq @ ''Raikot'' @ sq @ '', '' @ sq @ ''Alpha'' @ sq @ '', '' @ sq @ ''Zeta'' @ sq) =
   Inr (doc_label ''1st Jan'' @ doc_array ''dailyProgress'' [] @
       doc_array ''inField'' [] @ doc_array ''totalSurveyors'' [] @
       doc_array ''approvalPercentages'' [] @ doc_array ''surveyPercentages'' ''1, 2'' @
       doc_array ''subdivisions'' (sq @ ''Raikot'' @ sq @ '', '' @ sq @ ''Alpha'' @ sq @ '', '' @ sq @ ''Zeta'' @ sq) @
       Z)\<close>
  by code_simp

lemma step_array_surveyPercentages:
  \<open>replace_array_const no_tmpl
     (doc_label ''1st Jan'' @ doc_array ''dailyProgress'' [] @
      doc_array ''inField'' [] @ doc_array ''totalSurveyors'' [] @
      doc_array ''approvalPercentages'' [] @ doc_array ''surveyPercentages'' ''1, 2'' @
      Z)
     ''surveyPercentages'' ''20.00, 10.00, 15.00'' =
   Inr (doc_label ''1st Jan'' @ doc_array ''dailyProgress'' [] @
       doc_array ''inField'' [] @ doc_array ''totalSurveyors'' [] @
       doc_array ''approvalPercentages'' [] @
       doc_array ''surveyPercentages'' ''20.00, 10.00, 15.00'' @ Z)\<close>
  by code_simp

lemma step_array_approvalPercentages:
  \<open>replace_array_const no_tmpl
     (doc_label ''1st Jan'' @ doc_array ''dailyProgress'' [] @
      doc_array ''inField'' [] @ doc_array ''totalSurveyors'' [] @
      doc_array ''approvalPercentages'' [] @ Z)
     ''approvalPercentages'' ''25.00, 50.00, 20.00'' =
   Inr (doc_label ''1st Jan'' @ doc_array ''dailyProgress'' [] @
       doc_array ''inField'' [] @ doc_array ''totalSurveyors'' [] @
       doc_array ''approvalPercentages'' ''25.00, 50.00, 20.00'' @ Z)\<close>
  by code_simp

lemma step_array_totalSurveyors:
  \<open>replace_array_const no_tmpl
     (doc_label ''1st Jan'' @ doc_array ''dailyProgress'' [] @
      doc_array ''inField'' [] @ doc_array ''totalSurveyors'' [] @ Z)
     ''totalSurveyors'' ''5, 7, 4'' =
   Inr (doc_label ''1st Jan'' @ doc_array ''dailyProgress'' [] @
       doc_array ''inField'' [] @ doc_array ''totalSurveyors'' ''5, 7, 4'' @ Z)\<close>
  by code_simp

lemma step_array_inField:
  \<open>replace_array_const no_tmpl
     (doc_label ''1st Jan'' @ doc_array ''dailyProgress'' [] @
      doc_array ''inField'' [] @ Z)
     ''inField'' ''4, 6, 1'' =
   Inr (doc_label ''1st Jan'' @ doc_array ''dailyProgress'' [] @
       doc_array ''inField'' ''4, 6, 1'' @ Z)\<close>
  by code_simp

lemma step_array_dailyProgress:
  \<open>replace_array_const no_tmpl
     (doc_label ''1st Jan'' @ doc_array ''dailyProgress'' [] @ Z)
     ''dailyProgress'' ''7, 9, 6'' =
   Inr (doc_label ''1st Jan'' @ doc_array ''dailyProgress'' ''7, 9, 6'' @ Z)\<close>
  by code_simp

lemma step_label:
  \<open>re_sub1 no_tmpl chart_label_re
     (''label: '' @ sq @ ''Plots Surveyed ('' @ ''5th Feb'' @ '')'' @ sq)
     (doc_label ''1st Jan'' @ Z) =
   Inr (doc_label ''5th Feb'' @ Z)\<close>
  by code_simp

lemma bind_e_Inr: "bind_e (Inr x) f = f x"
  by (simp add: bind_e_def)

lemma example_render: "render no_tmpl example_data bare_doc = Inr bare_doc_updated"
  unfolding render_def Let_def example_fields example_dates example_arrays bare_doc_def
    bare_doc_updated_def
  by (simp only: step_as_of step_stats step_cards step_header
      step_tbody_start step_tbody_end step_tbody step_array_subdivisions
      step_array_surveyPercentages step_array_approvalPercentages step_array_totalSurveyors step_array_inField
      step_array_dailyProgress step_label
      bind_e_Inr option.case)

lemma example_render_empty: "render no_tmpl example_data [] = Inl ValueError"
  unfolding render_def Let_def example_fields example_dates example_arrays
  by (simp add: re_sub1_def replace_between_def as_of_re_def match_at_def bind_e_def)

lemma bind_e_Inr_iff: "bind_e m f = Inr y \<longleftrightarrow> (\<exists>x. m = Inr x \<and> f x = Inr y)"
  by (cases m) (simp_all add: bind_e_def)

lemma case_option_Inr_iff:
  "(case x of None \<Rightarrow> Inl e | Some y \<Rightarrow> f y) = Inr z \<longleftrightarrow> (\<exists>y. x = Some y \<and> f y = Inr z)"
  by (cases x) simp_all

lemma render_steps:
  assumes "render tmpl d html0 = Inr out"
  shows \<open>\<exists>html1 html2 html3 html4 tbody_start tbody_end html6 html7 html8 html9 html10 html11.
     re_sub1 tmpl as_of_re
       (''<p>Ludhiana District | Data as of '' @ format_as_of_date (report_date d) @ ''</p>'')
       html0 = Inr html1
   \<and> replace_between html1 ''    <div class="stats-grid">''
       (nl @ nl @ ''    <h2 style="margin: 30px 0 20px 0; padding-left: 10px;">'')
       (build_stats_html (totals d)) = Inr html2
   \<and> replace_between html2 ''    <div class="subdivision-grid">''
       (nl @ nl @ ''    <!-- Charts: survey, approval, surveyors, daily progress -->'')
       (build_subdivision_cards_html (subdivisions d)) = Inr html3
   \<and> re_sub1 tmpl surveyed_th_re
       (''<th>Surveyed ('' @ format_surveyed_header_date (report_date d) @ '')</th>'')
       html3 = Inr html4
   \<and> find_str ''            <tbody>'' html4 = Some tbody_start
   \<and> find_from html4 ''            </tbody>'' tbody_start = Some tbody_end
   \<and> replace_array_const tmpl
       (take tbody_start html4 @ build_table_body_html (subdivisions d) (totals d) @
        drop (tbody_end + length ''            </tbody>'') html4)
       ''subdivisions'' (join '', '' (map (\<lambda>row. sq @ name row @ sq) (subdivisions d))) =
       Inr html6
   \<and> replace_array_const tmpl html6 ''surveyPercentages''
       (join '', '' (map (\<lambda>row. fmt2 (survey_percent row)) (subdivisions d))) = Inr html7
   \<and> replace_array_const tmpl html7 ''approvalPercentages''
       (join '', '' (map (\<lambda>row. fmt2 (approval_percent row)) (subdivisions d))) = Inr html8
   \<and> replace_array_const tmpl html8 ''totalSurveyors''
       (join '', '' (map (\<lambda>row. str_int (total_surveyors row)) (subdivisions d))) = Inr html9
   \<and> replace_array_const tmpl html9 ''inField''
       (join '', '' (map (\<lambda>row. str_int (in_field row)) (subdivisions d))) = Inr html10
   \<and> replace_array_const tmpl html10 ''dailyProgress''
       (join '', '' (map (\<lambda>row. str_int (surveyed_today row)) (subdivisions d))) = Inr html11
   \<and> re_sub1 tmpl chart_label_re
       (''label: '' @ sq @ ''Plots Surveyed ('' @ format_daily_chart_label (report_date d) @
        '')'' @ sq)
       html11 = Inr out\<close>
  using assms unfolding render_def Let_def bind_e_Inr_iff case_option_Inr_iff
  by blast

lemma example_update:
  "update_html no_tmpl example_data \<lparr>content = bare_doc, writes = 0\<rparr> =
     (None, \<lparr>content = bare_doc_updated, writes = 1\<rparr>)"
  by (simp add: update_html_def example_render)

lemma example_update_empty:
  "update_html no_tmpl example_data \<lparr>content = [], writes = 0\<rparr> =
     (Some ValueError, \<lparr>content = [], writes = 0\<rparr>)"
  by (simp add: update_html_def example_render_empty)

lemma bare_doc_no_as_of: "re_search as_of_re bare_doc = None"
  unfolding bare_doc_def by (rule step_as_of_search)

text \<open>
  Claim C1.  The substitution of the as-of line by \<open>re.sub\<close> does not raise when the
  document has no as-of line: on the example document, which has none, the run of
  \<open>update_html\<close> returns normally and writes the document with every other region replaced
  and still no as-of line.  The substitutions of the table header date and of the chart
  label are the same call and return the text unchanged when their pattern does not occur.
  The replacement of an array constant raises \<open>ValueError\<close> when its pattern does not occur,
  and so does the replacement between markers: on the empty document the run raises and
  writes nothing.
\<close>

theorem regex_substitution_skips_silently:
  "re_search as_of_re bare_doc = None
   \<and> update_html no_tmpl example_data \<lparr>content = bare_doc, writes = 0\<rparr> =
       (None, \<lparr>content = bare_doc_updated, writes = 1\<rparr>)
   \<and> re_sub1 no_tmpl surveyed_th_re (''<th>Surveyed ('' @ ''5-2-24'' @ '')</th>'')
         ''<table></table>'' = Inr ''<table></table>''
   \<and> re_sub1 no_tmpl chart_label_re
         (''label: '' @ sq @ ''Plots Surveyed ('' @ ''5th Feb'' @ '')'' @ sq)
         ''<script></script>'' = Inr ''<script></script>''
   \<and> replace_array_const no_tmpl ''<script></script>'' ''subdivisions'' [] = Inl ValueError
   \<and> update_html no_tmpl example_data \<lparr>content = [], writes = 0\<rparr> =
       (Some ValueError, \<lparr>content = [], writes = 0\<rparr>)"
proof -
  have a: "re_sub1 no_tmpl surveyed_th_re (''<th>Surveyed ('' @ ''5-2-24'' @ '')</th>'')
         ''<table></table>'' = Inr ''<table></table>''"
    by code_simp
  have b: "re_sub1 no_tmpl chart_label_re
         (''label: '' @ sq @ ''Plots Surveyed ('' @ ''5th Feb'' @ '')'' @ sq)
         ''<script></script>'' = Inr ''<script></script>''"
    by code_simp
  have c: "replace_array_const no_tmpl ''<script></script>'' ''subdivisions'' [] = Inl ValueError"
    by code_simp
  from bare_doc_no_as_of example_update a b c example_update_empty show ?thesis by blast
qed

text \<open>
  Claim C2.  A run of \<open>update_html\<close> writes the file at most once.  If rendering raises, the
  run raises the same exception and the file is as it was before.  If the run returns
  normally, the file has been written exactly once, its new text is the result of
  rendering its old text, and every step has returned normally on the text in memory: the
  three substitutions by pattern, the two replacements between markers, the two searches
  for the table body and the six replacements of array constants.  Reading and writing the
  file are taken not to fail.
\<close>

theorem write_once_after_success:
  assumes "update_html tmpl d fs = (res, fs')"
  shows \<open>writes fs' \<le> writes fs + 1
   \<and> (\<forall>e. render tmpl d (content fs) = Inl e \<longrightarrow> res = Some e \<and> fs' = fs)
   \<and> (res \<noteq> None \<longrightarrow> fs' = fs \<and> (\<exists>e. res = Some e \<and> render tmpl d (content fs) = Inl e))
   \<and> (res = None \<longrightarrow>
        writes fs' = writes fs + 1 \<and> render tmpl d (content fs) = Inr (content fs'))
   \<and> (writes fs' = writes fs + 1 \<longrightarrow>
        (\<exists>html1 html2 html3 html4 tbody_start tbody_end html6 html7 html8 html9 html10 html11.
           re_sub1 tmpl as_of_re
             (''<p>Ludhiana District | Data as of '' @ format_as_of_date (report_date d) @
              ''</p>'')
             (content fs) = Inr html1
         \<and> replace_between html1 ''    <div class="stats-grid">''
             (nl @ nl @ ''    <h2 style="margin: 30px 0 20px 0; padding-left: 10px;">'')
             (build_stats_html (totals d)) = Inr html2
         \<and> replace_between html2 ''    <div class="subdivision-grid">''
             (nl @ nl @ ''    <!-- Charts: survey, approval, surveyors, daily progress -->'')
             (build_subdivision_cards_html (subdivisions d)) = Inr html3
         \<and> re_sub1 tmpl surveyed_th_re
             (''<th>Surveyed ('' @ format_surveyed_header_date (report_date d) @ '')</th>'')
             html3 = Inr html4
         \<and> find_str ''            <tbody>'' html4 = Some tbody_start
         \<and> find_from html4 ''            </tbody>'' tbody_start = Some tbody_end
         \<and> replace_array_const tmpl
             (take tbody_start html4 @ build_table_body_html (subdivisions d) (totals d) @
              drop (tbody_end + length ''            </tbody>'') html4)
             ''subdivisions''
             (join '', '' (map (\<lambda>row. sq @ name row @ sq) (subdivisions d))) = Inr html6
         \<and> replace_array_const tmpl html6 ''surveyPercentages''
             (join '', '' (map (\<lambda>row. fmt2 (survey_percent row)) (subdivisions d))) = Inr html7
         \<and> replace_array_const tmpl html7 ''approvalPercentages''
             (join '', '' (map (\<lambda>row. fmt2 (approval_percent row)) (subdivisions d))) =
             Inr html8
         \<and> replace_array_const tmpl html8 ''totalSurveyors''
             (join '', '' (map (\<lambda>row. str_int (total_surveyors row)) (subdivisions d))) =
             Inr html9
         \<and> replace_array_const tmpl html9 ''inField''
             (join '', '' (map (\<lambda>row. str_int (in_field row)) (subdivisions d))) = Inr html10
         \<and> replace_array_const tmpl html10 ''dailyProgress''
             (join '', '' (map (\<lambda>row. str_int (surveyed_today row)) (subdivisions d))) =
             Inr html11
         \<and> re_sub1 tmpl chart_label_re
             (''label: '' @ sq @ ''Plots Surveyed ('' @
              format_daily_chart_label (report_date d) @ '')'' @ sq)
             html11 = Inr (content fs')))\<close>
proof (cases "render tmpl d (content fs)")
  case (Inl e)
  with assms have "res = Some e" and "fs' = fs" by (simp_all add: update_html_def)
  with Inl show ?thesis by simp
next
  case (Inr html)
  with assms have r: "res = None" and f: "fs' = \<lparr>content = html, writes = writes fs + 1\<rparr>"
    by (simp_all add: update_html_def)
  from f have c: "content fs' = html" and w: "writes fs' = writes fs + 1" by simp_all
  from Inr c have "render tmpl d (content fs) = Inr (content fs')" by simp
  from render_steps [OF this] this r w show ?thesis by simp
qed

theorem write_once_after_success_witness:
  "update_html no_tmpl example_data \<lparr>content = bare_doc, writes = 0\<rparr> =
     (None, \<lparr>content = bare_doc_updated, writes = 1\<rparr>)
   \<and> render no_tmpl example_data bare_doc = Inr bare_doc_updated
   \<and> update_html no_tmpl example_data \<lparr>content = [], writes = 0\<rparr> =
       (Some ValueError, \<lparr>content = [], writes = 0\<rparr>)
   \<and> render no_tmpl example_data [] = Inl ValueError"
proof -
  from write_once_after_success [OF example_update]
  have a: "render no_tmpl example_data bare_doc = Inr bare_doc_updated" by simp
  from write_once_after_success [OF example_update_empty]
  have b: "render no_tmpl example_data [] = Inl ValueError" by simp
  from a b example_update example_update_empty show ?thesis by blast
qed

end
